theory Spec2Isabelle
  imports Main
begin

section \<open>Python values, exceptions and strings\<close>

text \<open>
  The exceptions that \<^verbatim>\<open>spawn.py\<close> raises itself or that the interpreter raises
  on its behalf. The payload is the message. \<^verbatim>\<open>sys.exit(n)\<close> raises
  \<open>SystemExit n\<close>.
\<close>

datatype exn =
    ValueError string
  | RuntimeError string
  | Exception string
  | TypeError string
  | AttributeError string
  | KeyError
  | IndexError
  | SystemExit int
  | KeyboardInterrupt
  | GeneratorExit

text \<open>
  \<^verbatim>\<open>isinstance(e, Exception)\<close>: the three last classes derive from
  \<^verbatim>\<open>BaseException\<close> only, so an \<^verbatim>\<open>except Exception\<close> clause lets them pass.
\<close>

fun isinstance_Exception :: "exn \<Rightarrow> bool" where
  "isinstance_Exception (SystemExit n) = False"
| "isinstance_Exception KeyboardInterrupt = False"
| "isinstance_Exception GeneratorExit = False"
| "isinstance_Exception e = True"

text \<open>
  The values that travel in the option dictionary of \<^verbatim>\<open>spawn\<close>.
\<close>

datatype pyval = PNone | PStr string | PInt int | PBool bool

text \<open>Decimal formatting, as \<^verbatim>\<open>%d\<close> and \<^verbatim>\<open>str\<close> do on integers.\<close>

definition digit_char :: "nat \<Rightarrow> char" where
  "digit_char d = ''0123456789'' ! (d mod 10)"

fun str_nat :: "nat \<Rightarrow> string" where
  "str_nat n = (if n < 10 then [digit_char n] else str_nat (n div 10) @ [digit_char (n mod 10)])"

declare str_nat.simps [simp del]

definition str_int :: "int \<Rightarrow> string" where
  "str_int i = (if i < 0 then CHR ''-'' # str_nat (nat (- i)) else str_nat (nat i))"

text \<open>\<^verbatim>\<open>s.split(c)\<close> for a one-character separator, and \<^verbatim>\<open>sep.join(xs)\<close>.\<close>

fun split_on :: "char \<Rightarrow> string \<Rightarrow> string list" where
  "split_on c [] = [[]]"
| "split_on c (x # xs) =
     (if x = c then [] # split_on c xs
      else (case split_on c xs of [] \<Rightarrow> [[x]] | w # ws \<Rightarrow> (x # w) # ws))"

fun str_join :: "string \<Rightarrow> string list \<Rightarrow> string" where
  "str_join sep [] = []"
| "str_join sep [x] = x"
| "str_join sep (x # y # ys) = x @ sep @ str_join sep (y # ys)"

text \<open>\<open>contains_str s t\<close>: the text \<open>t\<close> occurs in \<open>s\<close> (a message names a value).\<close>

fun starts_with :: "string \<Rightarrow> string \<Rightarrow> bool" where
  "starts_with s [] = True"
| "starts_with [] (y # ys) = False"
| "starts_with (x # xs) (y # ys) = (x = y \<and> starts_with xs ys)"

fun contains_str :: "string \<Rightarrow> string \<Rightarrow> bool" where
  "contains_str [] t = (t = [])"
| "contains_str (x # xs) t = (starts_with (x # xs) t \<or> contains_str xs t)"

section \<open>Worker processes as the supervisor sees them\<close>

text \<open>
  A \<^verbatim>\<open>multiprocessing.Process\<close> that has been started. The operating system is
  the environment of the supervisor, so what a worker will do is carried by the handle:
  \<^item> \<open>status\<close>: still running, exited but not yet waited for, or reaped with its exit
    code;
  \<^item> \<open>fate\<close>: the exit code the worker ends with when nobody signals it
    (\<open>None\<close>: it never exits by itself);
  \<^item> \<open>on_term\<close>: the exit code it ends with once \<^verbatim>\<open>SIGTERM\<close> is delivered
    (\<open>None\<close>: the signal is handled or ignored and the worker carries on to its fate).
  Exit codes follow \<^verbatim>\<open>Process.exitcode\<close>: zero for success, \<open>- n\<close> for death by
  signal \<open>n\<close>, positive for an explicit exit status.
\<close>

datatype pstatus = Running | Exited int | Reaped int

record process =
  sentinel :: nat
  daemon :: bool
  status :: pstatus
  fate :: "int option"
  on_term :: "int option"

definition is_alive :: "process \<Rightarrow> bool" where
  "is_alive p = (status p = Running)"

definition terminate :: "process \<Rightarrow> process" where
  "terminate p =
     (case status p of
        Running \<Rightarrow> (case on_term p of Some c \<Rightarrow> p\<lparr>fate := Some c\<rparr> | None \<Rightarrow> p)
      | _ \<Rightarrow> p)"

text \<open>
  \<^verbatim>\<open>process.join()\<close> without a timeout blocks until the worker has exited and
  reaps it; \<open>None\<close> is the call that never returns.
\<close>

definition proc_join :: "process \<Rightarrow> process option" where
  "proc_join p =
     (case status p of
        Running \<Rightarrow> (case fate p of Some c \<Rightarrow> Some (p\<lparr>status := Reaped c\<rparr>) | None \<Rightarrow> None)
      | Exited c \<Rightarrow> Some (p\<lparr>status := Reaped c\<rparr>)
      | Reaped c \<Rightarrow> Some p)"

definition exitcode :: "process \<Rightarrow> int option" where
  "exitcode p = (case status p of Running \<Rightarrow> None | Exited c \<Rightarrow> Some c | Reaped c \<Rightarrow> Some c)"

definition reaped :: "process \<Rightarrow> bool" where
  "reaped p = (case status p of Reaped c \<Rightarrow> True | _ \<Rightarrow> False)"

text \<open>The exit code that \<^verbatim>\<open>process.join()\<close> finds for a process.\<close>

definition final_code :: "process \<Rightarrow> int option" where
  "final_code p = (case status p of Running \<Rightarrow> fate p | Exited c \<Rightarrow> Some c | Reaped c \<Rightarrow> Some c)"

section \<open>MultiprocessContext\<close>

text \<open>
  The sentinel dictionary keeps insertion order; a key stored twice keeps its first
  position and its last value.
\<close>

type_synonym sentinels = "(nat \<times> nat) list"

fun dict_set :: "sentinels \<Rightarrow> nat \<Rightarrow> nat \<Rightarrow> sentinels" where
  "dict_set [] k v = [(k, v)]"
| "dict_set ((k', v') # d) k v = (if k' = k then (k, v) # d else (k', v') # dict_set d k v)"

fun dict_pop :: "sentinels \<Rightarrow> nat \<Rightarrow> (nat \<times> sentinels) option" where
  "dict_pop [] k = None"
| "dict_pop ((k', v') # d) k =
     (if k' = k then Some (v', d)
      else (case dict_pop d k of None \<Rightarrow> None | Some (v, d') \<Rightarrow> Some (v, (k', v') # d')))"

text \<open>
  A queue is the list of the values waiting in it. The supervisor reads a worker's
  queue only after that worker has been joined, so the list is what the worker wrote.
\<close>

record 'r multiprocess_context =
  error_queues :: "string list list"
  return_queues :: "'r list list"
  processes :: "process list"
  sentinels :: sentinels

definition py_supported_check :: "nat \<times> nat \<Rightarrow> exn option" where
  "py_supported_check version_info =
     (if \<not> (fst version_info > 3 \<or> (fst version_info = 3 \<and> snd version_info \<ge> 4))
      then Some (RuntimeError (''Use `paddle.distributed.spawn` to start parallel training ''
             @ ''requires python version greater than 3.4, if your python ''
             @ ''is lower than this version, please use ''
             @ ''`paddle.distributed.launch` instead.''))
      else None)"

fun enumerate_sentinels :: "sentinels \<Rightarrow> nat \<Rightarrow> process list \<Rightarrow> sentinels" where
  "enumerate_sentinels d index [] = d"
| "enumerate_sentinels d index (p # ps) =
     enumerate_sentinels (dict_set d (sentinel p) index) (Suc index) ps"

definition MultiprocessContext ::
  "nat \<times> nat \<Rightarrow> process list \<Rightarrow> string list list \<Rightarrow> 'r list list \<Rightarrow> exn + 'r multiprocess_context" where
  "MultiprocessContext version_info procs eqs rqs =
     (case py_supported_check version_info of
        Some e \<Rightarrow> Inl e
      | None \<Rightarrow> Inr \<lparr>error_queues = eqs, return_queues = rqs, processes = procs,
                     sentinels = enumerate_sentinels [] 0 procs\<rparr>)"

subsection \<open>\_throw\_exception\<close>

definition nl :: string where
  "nl = [CHR 0x0A]"

definition q :: string where
  "q = [CHR 0x27]"

definition dashes :: string where
  "dashes = ''----------------------------------------------''"

text \<open>
  What the interpreter raises when \<^verbatim>\<open>&\<close> is applied to a string and a tuple.
\<close>

definition str_and_tuple_error :: exn where
  "str_and_tuple_error =
     TypeError (''unsupported operand type(s) for &: ''
                @ q @ ''str'' @ q @ '' and '' @ q @ ''tuple'' @ q)"

text \<open>The banner that frames the trace of a worker, with the worker's index.\<close>

definition error_banner :: "nat \<Rightarrow> string" where
  "error_banner error_index =
     nl @ nl @ dashes @ nl
     @ ''Process '' @ str_nat error_index @ '' terminated with the following error:'' @ nl
     @ dashes @ nl @ nl"

text \<open>
  \<open>signal_name\<close> is the table \<^verbatim>\<open>signal.Signals\<close> of the platform: the name of a
  signal number, \<open>None\<close> where the enumeration has no member (the lookup raises
  \<^verbatim>\<open>ValueError\<close>). The method always raises; the result is the context after the
  read and the exception raised. In the branch for a non-negative exit code the source
  applies \<^verbatim>\<open>&\<close> to the format string and the tuple, which is a
  \<^verbatim>\<open>TypeError\<close>.
\<close>

definition throw_exception ::
  "(int \<Rightarrow> string option) \<Rightarrow> 'r multiprocess_context \<Rightarrow> nat \<Rightarrow> 'r multiprocess_context \<times> exn" where
  "throw_exception signal_name ctx error_index =
     (if error_index \<ge> length (error_queues ctx) then (ctx, IndexError)
      else if error_queues ctx ! error_index = [] then
        (if error_index \<ge> length (processes ctx) then (ctx, IndexError)
         else (case exitcode (processes ctx ! error_index) of
            None \<Rightarrow> (ctx, TypeError (q @ ''<'' @ q @ '' not supported between instances of ''
                          @ q @ ''NoneType'' @ q @ '' and '' @ q @ ''int'' @ q))
          | Some code \<Rightarrow>
              if code < 0 then
                (case signal_name (- code) of
                   None \<Rightarrow> (ctx, ValueError (str_int (- code) @ '' is not a valid Signals''))
                 | Some name \<Rightarrow>
                     (ctx, Exception (''Process '' @ str_nat error_index
                            @ '' terminated with signal '' @ name @ ''.'')))
              else (ctx, str_and_tuple_error)))
      else
        (let original_trace = hd (error_queues ctx ! error_index);
             ctx' = ctx\<lparr>error_queues :=
                      (error_queues ctx)[error_index := tl (error_queues ctx ! error_index)]\<rparr>;
             msg = error_banner error_index
         in (ctx', Exception (msg @ original_trace))))"


subsection \<open>join\<close>

text \<open>
  The loop over the sentinels that the wait reported: pop the sentinel, join the
  process, stop at the first exit code that is not zero. The result is the context
  after the loop and either an exception or \<^verbatim>\<open>error_index\<close>.
\<close>

fun reap_ready :: "'r multiprocess_context \<Rightarrow> nat list \<Rightarrow> ('r multiprocess_context \<times> (exn + nat option)) option" where
  "reap_ready ctx [] = Some (ctx, Inr None)"
| "reap_ready ctx (s # ready) =
     (case dict_pop (sentinels ctx) s of
        None \<Rightarrow> Some (ctx, Inl KeyError)
      | Some (index, d) \<Rightarrow>
          (let ctx1 = ctx\<lparr>sentinels := d\<rparr> in
           if index \<ge> length (processes ctx1) then Some (ctx1, Inl IndexError)
           else (case proc_join (processes ctx1 ! index) of
                   None \<Rightarrow> None
                 | Some p \<Rightarrow>
                     (let ctx2 = ctx1\<lparr>processes := (processes ctx1)[index := p]\<rparr> in
                      if exitcode p \<noteq> Some 0 then Some (ctx2, Inr (Some index))
                      else reap_ready ctx2 ready))))"

text \<open>
  The teardown loop: every process of the pool, in order, is terminated when it is
  alive and then joined.
\<close>

definition terminate_and_join :: "process \<Rightarrow> process option" where
  "terminate_and_join p = proc_join (if is_alive p then terminate p else p)"

fun drain :: "process list \<Rightarrow> process list option" where
  "drain [] = Some []"
| "drain (p # ps) =
     (case terminate_and_join p of
        None \<Rightarrow> None
      | Some p' \<Rightarrow> (case drain ps of None \<Rightarrow> None | Some ps' \<Rightarrow> Some (p' # ps')))"

text \<open>
  One round of \<^verbatim>\<open>join\<close>. \<open>wait\<close> is the answer of
  \<^verbatim>\<open>multiprocessing.connection.wait\<close> on the live sentinels: the list of those
  that are ready, or \<open>None\<close> when the wait never returns. The result is \<open>None\<close> when
  the call never returns; otherwise the context as the call leaves it, with the value
  returned (\<open>Inr\<close>) or the exception raised (\<open>Inl\<close>).
\<close>

definition join ::
  "(int \<Rightarrow> string option) \<Rightarrow> 'r multiprocess_context \<Rightarrow> nat list option \<Rightarrow> ('r multiprocess_context \<times> (exn + bool)) option" where
  "join signal_name ctx wait =
     (if length (sentinels ctx) = 0 then Some (ctx, Inr True)
      else (case wait of
        None \<Rightarrow> None
      | Some ready \<Rightarrow>
         (case reap_ready ctx ready of
            None \<Rightarrow> None
          | Some (ctx1, Inl e) \<Rightarrow> Some (ctx1, Inl e)
          | Some (ctx1, Inr None) \<Rightarrow> Some (ctx1, Inr (length (sentinels ctx1) = 0))
          | Some (ctx1, Inr (Some error_index)) \<Rightarrow>
              (case drain (processes ctx1) of
                 None \<Rightarrow> None
               | Some ps \<Rightarrow>
                   (case throw_exception signal_name (ctx1\<lparr>processes := ps\<rparr>) error_index of
                      (ctx2, e) \<Rightarrow> Some (ctx2, Inl e))))))"

section \<open>The wrapper that runs in every worker\<close>

text \<open>
  What \<^verbatim>\<open>return_queue.put(result)\<close> does with a value: it pickles the value and
  writes it to the pipe of the queue. The call completes, or it raises (a value that
  cannot be pickled; the text is the trace of that exception), or it never completes
  (a value larger than the pipe takes while nobody reads the queue).
\<close>

datatype put_outcome = Put_done | Put_raises exn string | Put_blocks

text \<open>
  What the two statements of the guarded body do in the worker. The call
  \<^verbatim>\<open>func(*args)\<close> returns a value or raises an exception; the text beside the
  exception is what \<^verbatim>\<open>traceback.format_exc()\<close> renders for it, the stack trace
  included. Beside a returned value stands what the put of that value then does.
\<close>

datatype 'r outcome = Returns 'r put_outcome | Raises exn string

type_synonym environ = "string \<rightharpoonup> string"
type_synonym env_dict = "(string \<times> string) list"

definition remove_risky_env :: "environ \<Rightarrow> environ" where
  "remove_risky_env environ = environ(''http_proxy'' := None, ''https_proxy'' := None)"

fun set_trainer_env :: "env_dict \<Rightarrow> environ \<Rightarrow> environ" where
  "set_trainer_env [] environ = environ"
| "set_trainer_env ((var_name, v) # env_dict) environ =
     set_trainer_env env_dict (environ(var_name \<mapsto> v))"

text \<open>
  The state a run of the wrapper leaves behind: the environment of the process, the two
  queues, and \<open>leaves\<close>, the exception that leaves the wrapper (\<open>None\<close> when it
  returns).
\<close>

record 'r wrapped =
  w_environ :: environ
  w_error_queue :: "string list"
  w_return_queue :: "'r list"
  leaves :: "exn option"

text \<open>
  The two \<^verbatim>\<open>except\<close> clauses, for an exception \<open>e\<close> with trace \<open>trace\<close>
  raised anywhere in the guarded body: \<^verbatim>\<open>KeyboardInterrupt\<close> is swallowed; an
  \<^verbatim>\<open>Exception\<close> has its trace put into the error queue and ends in
  \<^verbatim>\<open>sys.exit(1)\<close>; any other exception matches neither clause and leaves the
  wrapper. The trace is a string, and its put is taken to complete.
\<close>

definition except_clauses ::
  "environ \<Rightarrow> string list \<Rightarrow> 'r list \<Rightarrow> exn \<Rightarrow> string \<Rightarrow> 'r wrapped" where
  "except_clauses environ' error_queue return_queue e trace =
     (if e = KeyboardInterrupt then
        \<lparr>w_environ = environ', w_error_queue = error_queue,
         w_return_queue = return_queue, leaves = None\<rparr>
      else if isinstance_Exception e then
        \<lparr>w_environ = environ', w_error_queue = error_queue @ [trace],
         w_return_queue = return_queue, leaves = Some (SystemExit 1)\<rparr>
      else
        \<lparr>w_environ = environ', w_error_queue = error_queue,
         w_return_queue = return_queue, leaves = Some e\<rparr>)"

text \<open>
  \<open>func\<close> maps the environment the worker runs in to what the guarded body does
  there; \<open>None\<close> is the call that never returns. The environment record is one
  of the planner's: its names and its values are strings, and its names are names that
  the process environment takes, so that no assignment of
  \<^verbatim>\<open>_set_trainer_env\<close> raises; a record with a value that is not a string, or
  with a name that the operating system refuses, is outside this model. The put of the
  result stands inside the guarded block: when it raises, the \<^verbatim>\<open>except\<close>
  clauses apply to its exception, and nothing has been added to the return queue.
\<close>

definition func_wrapper ::
  "(environ \<Rightarrow> 'r outcome option) \<Rightarrow> string list \<Rightarrow> 'r list \<Rightarrow> env_dict \<Rightarrow> environ
     \<Rightarrow> 'r wrapped option" where
  "func_wrapper func error_queue return_queue env_dict environ =
     (let environ' = set_trainer_env env_dict (remove_risky_env environ) in
      case func environ' of
        None \<Rightarrow> None
      | Some (Returns result put) \<Rightarrow>
          (case put of
             Put_done \<Rightarrow>
               Some \<lparr>w_environ = environ', w_error_queue = error_queue,
                     w_return_queue = return_queue @ [result], leaves = None\<rparr>
           | Put_raises e trace \<Rightarrow>
               Some (except_clauses environ' error_queue return_queue e trace)
           | Put_blocks \<Rightarrow> None)
      | Some (Raises e trace) \<Rightarrow>
          Some (except_clauses environ' error_queue return_queue e trace))"

text \<open>
  The exit code the parent finds for a process whose target has finished: zero when
  the target returned; for a \<^verbatim>\<open>SystemExit\<close> its status as the operating system
  keeps it, the low eight bits (\<^verbatim>\<open>sys.exit(256)\<close> is exit code 0,
  \<^verbatim>\<open>sys.exit(-1)\<close> is 255); one for every other exception.
\<close>

fun process_exitcode :: "exn option \<Rightarrow> int" where
  "process_exitcode None = 0"
| "process_exitcode (Some (SystemExit n)) = n mod 256"
| "process_exitcode (Some e) = 1"

section \<open>Planning the environments\<close>

record ParallelEnvArgs =
  cluster_node_ips :: pyval
  node_ip :: pyval
  use_paddlecloud :: pyval
  started_port :: pyval
  print_config :: pyval
  selected_gpus :: pyval

definition ParallelEnvArgs_init :: ParallelEnvArgs where
  "ParallelEnvArgs_init =
     \<lparr>cluster_node_ips = PNone, node_ip = PNone, use_paddlecloud = PNone,
      started_port = PNone, print_config = PBool True, selected_gpus = PNone\<rparr>"

type_synonym options = "(string \<times> pyval) list"

definition options_get :: "options \<Rightarrow> string \<Rightarrow> pyval \<Rightarrow> pyval" where
  "options_get opts key dflt = (case map_of opts key of None \<Rightarrow> dflt | Some v \<Rightarrow> v)"

definition supported_options :: "string list" where
  "supported_options =
     [''start_method'', ''cluster_node_ips'', ''node_ip'', ''started_port'',
      ''selected_gpus'', ''print_config'', ''use_paddlecloud'']"

fun options_valid_check :: "options \<Rightarrow> exn option" where
  "options_valid_check [] = None"
| "options_valid_check ((key, v) # opts) =
     (if key \<notin> set supported_options
      then Some (ValueError (''The config option ('' @ key
                   @ '') of `paddle.distributed.spawn` is not supported.''))
      else options_valid_check opts)"

text \<open>
  What the planner reads from its surroundings: the variable
  \<^verbatim>\<open>CUDA_VISIBLE_DEVICES\<close>, the device count of the runtime, and
  \<open>trainer_envs\<close>, which stands for \<^verbatim>\<open>get_cluster_and_pod\<close> followed by
  \<^verbatim>\<open>_prepare_trainer_env\<close> on every trainer of the pod (both live in other
  modules): from the completed arguments to one environment per trainer, or an error.
\<close>

record planner_env =
  CUDA_VISIBLE_DEVICES :: "string option"
  cuda_device_count :: nat
  trainer_envs :: "ParallelEnvArgs \<Rightarrow> exn + env_dict list"

definition env_devices_list :: "'a planner_env_scheme \<Rightarrow> string list" where
  "env_devices_list h =
     (case CUDA_VISIBLE_DEVICES h of
        None \<Rightarrow> map str_nat [0..<cuda_device_count h]
      | Some env_devices \<Rightarrow>
          if env_devices = [] then map str_nat [0..<cuda_device_count h]
          else split_on CHR '','' env_devices)"

text \<open>The loop over the selected card ids: the first one that is not visible raises.\<close>

fun check_selected :: "string list \<Rightarrow> string list \<Rightarrow> exn option" where
  "check_selected devices [] = None"
| "check_selected devices (card_id # ids) =
     (if card_id \<notin> set devices
      then Some (ValueError (''The selected gpu card '' @ card_id
                   @ '' cannot found in CUDA_VISIBLE_DEVICES ('' @ str_join '','' devices @ '').''))
      else check_selected devices ids)"

text \<open>
  \<^verbatim>\<open>_get_subprocess_env_list\<close>. Printing the configuration writes to the
  standard output only and is left out.
\<close>

definition get_subprocess_env_list ::
  "'a planner_env_scheme \<Rightarrow> int \<Rightarrow> options \<Rightarrow> exn + env_dict list" where
  "get_subprocess_env_list h nprocs opts =
     (let args = ParallelEnvArgs_init;
          args = args\<lparr>cluster_node_ips := options_get opts ''cluster_node_ips'' PNone\<rparr>;
          args = args\<lparr>node_ip := options_get opts ''node_ip'' PNone\<rparr>
      in
      if cluster_node_ips args \<noteq> PNone \<and> node_ip args = PNone
      then Inl (ValueError (''please input current node ip, ''
                  @ ''cannot only give `cluster_node_ips`.''))
      else
      (let default_node_ip = PStr ''127.0.0.1'';
           args = (if node_ip args = PNone then args\<lparr>node_ip := default_node_ip\<rparr> else args);
           args = (if cluster_node_ips args = PNone
                   then args\<lparr>cluster_node_ips := default_node_ip\<rparr> else args);
           args = args\<lparr>selected_gpus := options_get opts ''selected_gpus'' PNone\<rparr>;
           devices = env_devices_list h;
           finish = (\<lambda>args.
             trainer_envs h
               (args\<lparr>started_port := options_get opts ''started_port'' PNone,
                      use_paddlecloud := options_get opts ''use_paddlecloud'' (PBool False),
                      print_config := options_get opts ''print_config'' (PBool False)\<rparr>))
       in
       case selected_gpus args of
         PNone \<Rightarrow>
           if int (length devices) < nprocs
           then Inl (RuntimeError (''the number of visible devices('' @ str_nat (length devices)
                  @ '') is less than the number ''
                  @ ''of spawn processes('' @ str_int nprocs @ ''), please ensure that the correct ''
                  @ ''`nprocs` argument is passed or the environment variable ''
                  @ ''`CUDA_VISIBLE_DEVICES` is correctly configured.''))
           else finish (args\<lparr>selected_gpus :=
                  PStr (str_join '','' (map (\<lambda>x. devices ! x) [0..<nat nprocs]))\<rparr>)
       | PStr selected \<Rightarrow>
           (case check_selected devices (split_on CHR '','' selected) of
              Some e \<Rightarrow> Inl e
            | None \<Rightarrow> finish args)
       | _ \<Rightarrow> Inl (AttributeError (''object has no attribute '' @ q @ ''split'' @ q))))"

section \<open>spawn\<close>

text \<open>
  The surroundings of \<^verbatim>\<open>spawn\<close>: the interpreter version, the device class, the
  processor count, the start methods that \<^verbatim>\<open>multiprocessing.get_context\<close>
  accepts (it raises on any other), the signal table, and the operating system's part
  in starting a worker: \<open>start_process i env\<close> is the handle of worker \<open>i\<close>
  started with environment \<open>env\<close>, with what that worker writes to its error queue
  and to its return queue. \<open>waits k\<close> is the answer to the \<open>k\<close>-th multi-way wait.
\<close>

record 'r host = planner_env +
  version_info :: "nat \<times> nat"
  get_device :: string
  cpu_num :: int
  get_context :: "pyval \<Rightarrow> exn option"
  start_process :: "nat \<Rightarrow> env_dict \<Rightarrow> process \<times> string list \<times> 'r list"
  signal_names :: "int \<Rightarrow> string option"
  waits :: "nat \<Rightarrow> nat list option"

text \<open>Only the value \<open>- 1\<close> is replaced; every other number is taken as it is.\<close>

definition default_nprocs :: "'r host \<Rightarrow> int \<Rightarrow> int" where
  "default_nprocs h nprocs =
     (if nprocs = - 1 then
        (if get_device h = ''cpu'' then cpu_num h else int (cuda_device_count h))
      else nprocs)"

text \<open>
  The loop that starts the workers, over the indices that remain. The result holds the
  processes started and the queues made so far, and the \<^verbatim>\<open>IndexError\<close> of
  \<^verbatim>\<open>procs_env_list[i]\<close> when the plan has no entry \<open>i\<close>.
\<close>

fun start_processes ::
  "'r host \<Rightarrow> bool \<Rightarrow> env_dict list \<Rightarrow> nat list
     \<Rightarrow> process list \<times> string list list \<times> 'r list list
     \<Rightarrow> (process list \<times> string list list \<times> 'r list list) \<times> exn option" where
  "start_processes h dmn procs_env_list [] acc = (acc, None)"
| "start_processes h dmn procs_env_list (i # rest) (ps, eqs, rqs) =
     (if i \<ge> length procs_env_list then ((ps, eqs, rqs), Some IndexError)
      else (case start_process h i (procs_env_list ! i) of
              (p, eq, rq) \<Rightarrow>
                start_processes h dmn procs_env_list rest
                  (ps @ [p\<lparr>daemon := dmn\<rparr>], eqs @ [eq], rqs @ [rq])))"

text \<open>
  \<^verbatim>\<open>while not context.join(): pass\<close>. The loop may run forever, so it is a
  partial function and \<open>None\<close> is the loop that never ends.
\<close>

partial_function (option) join_loop ::
  "'r host \<Rightarrow> nat \<Rightarrow> 'r multiprocess_context \<Rightarrow> (exn + 'r multiprocess_context) option" where
  "join_loop h k ctx =
     (case join (signal_names h) ctx (waits h k) of
        None \<Rightarrow> None
      | Some (ctx', r) \<Rightarrow>
          (case r of
             Inl e \<Rightarrow> Some (Inl e)
           | Inr done \<Rightarrow> if done then Some (Inr ctx') else join_loop h (Suc k) ctx'))"

text \<open>
  \<^verbatim>\<open>spawn\<close>. The result is \<open>None\<close> when the call never returns; otherwise the
  number of worker processes the call has started, with the exception raised or the
  context returned.
\<close>

definition spawn ::
  "'r host \<Rightarrow> int \<Rightarrow> bool \<Rightarrow> bool \<Rightarrow> options
     \<Rightarrow> (nat \<times> (exn + 'r multiprocess_context)) option" where
  "spawn h nprocs do_join dmn opts =
     (case py_supported_check (version_info h) of
        Some e \<Rightarrow> Some (0, Inl e)
      | None \<Rightarrow>
     (case options_valid_check opts of
        Some e \<Rightarrow> Some (0, Inl e)
      | None \<Rightarrow>
     (let nprocs = default_nprocs h nprocs in
      case get_subprocess_env_list h nprocs opts of
        Inl e \<Rightarrow> Some (0, Inl e)
      | Inr procs_env_list \<Rightarrow>
     (let start_method = options_get opts ''start_method'' PNone;
          start_method = (if start_method = PNone then PStr ''spawn'' else start_method)
      in
      case get_context h start_method of
        Some e \<Rightarrow> Some (0, Inl e)
      | None \<Rightarrow>
     (case start_processes h dmn procs_env_list [0..<nat nprocs] ([], [], []) of
        ((ps, eqs, rqs), Some e) \<Rightarrow> Some (length ps, Inl e)
      | ((ps, eqs, rqs), None) \<Rightarrow>
     (case MultiprocessContext (version_info h) ps eqs rqs of
        Inl e \<Rightarrow> Some (length ps, Inl e)
      | Inr ctx \<Rightarrow>
          if \<not> do_join then Some (length ps, Inr ctx)
          else map_option (\<lambda>r. (length ps, r)) (join_loop h 0 ctx)))))))"

section \<open>Notions of the specification\<close>

text \<open>
  The specification calls every error of option checking and planning a
  \<^verbatim>\<open>ConfigurationError\<close>; the code raises \<^verbatim>\<open>ValueError\<close> and
  \<^verbatim>\<open>RuntimeError\<close> for them.
\<close>

fun ConfigurationError :: "exn \<Rightarrow> bool" where
  "ConfigurationError (ValueError msg) = True"
| "ConfigurationError (RuntimeError msg) = True"
| "ConfigurationError e = False"

text \<open>
  The exit code of a worker process, whose target is the wrapper: \<open>None\<close> when the
  worker function never returns.
\<close>

definition worker_exitcode ::
  "(environ \<Rightarrow> 'r outcome option) \<Rightarrow> string list \<Rightarrow> 'r list \<Rightarrow> env_dict \<Rightarrow> environ
     \<Rightarrow> int option" where
  "worker_exitcode func eq rq env_dict environ =
     map_option (\<lambda>w. process_exitcode (leaves w)) (func_wrapper func eq rq env_dict environ)"


text \<open>
  The arguments that planning hands to the topology resolver for a given device
  selection: the node addresses default to the loopback address, the other fields come
  from the options.
\<close>

definition planned_args :: "options \<Rightarrow> pyval \<Rightarrow> ParallelEnvArgs" where
  "planned_args opts selection =
     \<lparr>cluster_node_ips =
        (if options_get opts ''cluster_node_ips'' PNone = PNone then PStr ''127.0.0.1''
         else options_get opts ''cluster_node_ips'' PNone),
      node_ip =
        (if options_get opts ''node_ip'' PNone = PNone then PStr ''127.0.0.1''
         else options_get opts ''node_ip'' PNone),
      use_paddlecloud = options_get opts ''use_paddlecloud'' (PBool False),
      started_port = options_get opts ''started_port'' PNone,
      print_config = options_get opts ''print_config'' (PBool False),
      selected_gpus = selection\<rparr>"

text \<open>
  Modelled from the spec: the topology resolver, which stands for
  \<^verbatim>\<open>get_cluster_and_pod\<close> of \<^verbatim>\<open>paddle.distributed.launch\<close>, a module
  that is not part of the source at hand. The specification gives it as
  \<^verbatim>\<open>resolve(node_ip, node_list, port, device_selection) -> topology\<close>, where the
  topology yields exactly one entry per worker containing rank, world size, device id
  and peer endpoint list; the pool has one worker per selected device and the rank is
  the zero-based index of the worker within the pool. The specification does not say
  how the peer endpoints are written: \<open>peers\<close> stands for that.
\<close>

record topology_entry =
  rank :: nat
  world_size :: nat
  device_id :: string
  peer_endpoints :: "string list"

definition resolve ::
  "(pyval \<Rightarrow> pyval \<Rightarrow> pyval \<Rightarrow> nat \<Rightarrow> string list)
     \<Rightarrow> pyval \<Rightarrow> pyval \<Rightarrow> pyval \<Rightarrow> string list \<Rightarrow> topology_entry list" where
  "resolve peers node_ip' node_list port device_selection =
     map (\<lambda>i. \<lparr>rank = i,
               world_size = length device_selection,
               device_id = device_selection ! i,
               peer_endpoints = peers node_ip' node_list port (length device_selection)\<rparr>)
       [0..<length device_selection]"

text \<open>
  Modelled from the spec: the projection of a topology entry into an environment
  record, which stands for \<^verbatim>\<open>_prepare_trainer_env\<close> of
  \<^verbatim>\<open>paddle.distributed.utils\<close>, not part of the source at hand either. The
  specification gives the record as a mapping from variable names to strings that holds
  the rank, the world size, the device binding and the peer endpoints, besides
  housekeeping variables (none is modelled). The device binding is under the name that
  the source mentions, \<^verbatim>\<open>FLAGS_selected_gpus\<close>; the other names are those of the
  framework.
\<close>

definition prepare_trainer_env :: "topology_entry \<Rightarrow> env_dict" where
  "prepare_trainer_env trainer =
     [(''FLAGS_selected_gpus'', device_id trainer),
      (''PADDLE_TRAINER_ID'', str_nat (rank trainer)),
      (''PADDLE_TRAINERS_NUM'', str_nat (world_size trainer)),
      (''PADDLE_TRAINER_ENDPOINTS'', str_join '','' (peer_endpoints trainer))]"

text \<open>
  Modelled from the spec: lines 140 to 144 of the source with that resolver and that
  projection in the place of the two functions of the other modules. The planner hands
  the device selection over as a string of ids separated by commas, which is read back
  as the source itself reads a selection (\<^verbatim>\<open>split(',')\<close>).
\<close>

definition resolved_trainer_envs ::
  "(pyval \<Rightarrow> pyval \<Rightarrow> pyval \<Rightarrow> nat \<Rightarrow> string list)
     \<Rightarrow> ParallelEnvArgs \<Rightarrow> exn + env_dict list" where
  "resolved_trainer_envs peers args =
     (case selected_gpus args of
        PStr selected \<Rightarrow>
          Inr (map prepare_trainer_env
                 (resolve peers (node_ip args) (cluster_node_ips args) (started_port args)
                    (split_on CHR '','' selected)))
      | _ \<Rightarrow> Inl (AttributeError (''object has no attribute '' @ q @ ''split'' @ q)))"

text \<open>The option set names a node list and not the address of the current node.\<close>

definition node_ip_missing :: "options \<Rightarrow> bool" where
  "node_ip_missing opts =
     (options_get opts ''cluster_node_ips'' PNone \<noteq> PNone
      \<and> options_get opts ''node_ip'' PNone = PNone)"

section \<open>Concrete pools and tables\<close>

text \<open>An excerpt of the signal table of a POSIX platform.\<close>

definition signal_table :: "int \<Rightarrow> string option" where
  "signal_table n =
     (if n = 2 then Some ''SIGINT'' else if n = 9 then Some ''SIGKILL''
      else if n = 15 then Some ''SIGTERM'' else None)"

text \<open>
  A pool of three workers: workers 0 and 1 have both failed with a trace in their error
  queues and have exited with status 1, worker 2 is still running and dies on
  \<^verbatim>\<open>SIGTERM\<close>.
\<close>

definition pool3 :: "nat multiprocess_context" where
  "pool3 =
     \<lparr>error_queues = [[''Traceback: boom 0''], [''Traceback: boom 1''], []],
      return_queues = [[], [], []],
      processes =
        [\<lparr>sentinel = 10, daemon = False, status = Exited 1, fate = Some 1, on_term = Some (- 15)\<rparr>,
         \<lparr>sentinel = 11, daemon = False, status = Exited 1, fate = Some 1, on_term = Some (- 15)\<rparr>,
         \<lparr>sentinel = 12, daemon = False, status = Running, fate = Some 0, on_term = Some (- 15)\<rparr>],
      sentinels = [(10, 0), (11, 1), (12, 2)]\<rparr>"

text \<open>The same pool after the loop over the batch \<open>[10, 11]\<close> has stopped at worker 0.\<close>

definition pool3_inspected :: "nat multiprocess_context" where
  "pool3_inspected =
     \<lparr>error_queues = [[''Traceback: boom 0''], [''Traceback: boom 1''], []],
      return_queues = [[], [], []],
      processes =
        [\<lparr>sentinel = 10, daemon = False, status = Reaped 1, fate = Some 1, on_term = Some (- 15)\<rparr>,
         \<lparr>sentinel = 11, daemon = False, status = Exited 1, fate = Some 1, on_term = Some (- 15)\<rparr>,
         \<lparr>sentinel = 12, daemon = False, status = Running, fate = Some 0, on_term = Some (- 15)\<rparr>],
      sentinels = [(11, 1), (12, 2)]\<rparr>"



text \<open>
  A pool of one worker that has exited with status 3 and has written no trace, as a
  worker function that calls \<^verbatim>\<open>sys.exit(3)\<close> does.
\<close>

definition pool_exit3 :: "nat multiprocess_context" where
  "pool_exit3 =
     \<lparr>error_queues = [[]],
      return_queues = [[]],
      processes =
        [\<lparr>sentinel = 10, daemon = False, status = Exited 3, fate = Some 3, on_term = Some (- 15)\<rparr>],
      sentinels = [(10, 0)]\<rparr>"

definition pool_exit3_failed :: "nat multiprocess_context" where
  "pool_exit3_failed =
     \<lparr>error_queues = [[]],
      return_queues = [[]],
      processes =
        [\<lparr>sentinel = 10, daemon = False, status = Reaped 3, fate = Some 3, on_term = Some (- 15)\<rparr>],
      sentinels = []\<rparr>"

text \<open>
  A pool of two workers; worker 0 has exited with the exit code of a wrapper whose
  function was interrupted, worker 1 is still running.
\<close>

definition interrupted_func :: "environ \<Rightarrow> nat outcome option" where
  "interrupted_func environ = Some (Raises KeyboardInterrupt ''KeyboardInterrupt'')"

definition pool_interrupted :: "nat multiprocess_context" where
  "pool_interrupted =
     \<lparr>error_queues = [[], []],
      return_queues = [[], []],
      processes =
        [\<lparr>sentinel = 10, daemon = False, status = Exited 0, fate = Some 0, on_term = Some (- 15)\<rparr>,
         \<lparr>sentinel = 11, daemon = False, status = Running, fate = Some 0, on_term = Some (- 15)\<rparr>],
      sentinels = [(10, 0), (11, 1)]\<rparr>"







text \<open>
  A host with eight devices of which four are visible, on a supported interpreter. Its
  resolver makes one environment per selected device; its workers succeed.
\<close>

definition one_env_per_device :: "ParallelEnvArgs \<Rightarrow> exn + env_dict list" where
  "one_env_per_device args =
     (case selected_gpus args of
        PStr s \<Rightarrow> Inr (map (\<lambda>g. [(''FLAGS_selected_gpus'', g)]) (split_on CHR '','' s))
      | _ \<Rightarrow> Inr [])"

definition host4 :: "nat host" where
  "host4 =
     \<lparr>CUDA_VISIBLE_DEVICES = Some ''4,5,6,7'',
      cuda_device_count = 8,
      trainer_envs = one_env_per_device,
      version_info = (3, 7),
      get_device = ''gpu:0'',
      cpu_num = 1,
      get_context = (\<lambda>m. if m = PStr ''spawn'' \<or> m = PStr ''fork'' \<or> m = PStr ''forkserver''
                          then None else Some (ValueError ''cannot find context'')),
      start_process = (\<lambda>i env.
         (\<lparr>sentinel = 10 + i, daemon = False, status = Running, fate = Some 0,
           on_term = Some (- 15)\<rparr>, [], [i])),
      signal_names = signal_table,
      waits = (\<lambda>k. None)\<rparr>"

text \<open>
  The same host with the resolver of the specification; the endpoints of its workers
  are consecutive ports of the loopback address.
\<close>

definition loopback_peers :: "pyval \<Rightarrow> pyval \<Rightarrow> pyval \<Rightarrow> nat \<Rightarrow> string list" where
  "loopback_peers node_ip' node_list port n =
     map (\<lambda>i. ''127.0.0.1:'' @ str_nat (6170 + i)) [0..<n]"

definition host4_resolved :: "nat host" where
  "host4_resolved = host4\<lparr>trainer_envs := resolved_trainer_envs loopback_peers\<rparr>"

text \<open>The same host under an interpreter older than 3.4.\<close>

definition host_py2 :: "nat host" where
  "host_py2 = host4\<lparr>version_info := (2, 7)\<rparr>"

text \<open>Option dictionaries.\<close>

definition opts_nodes_only :: options where
  "opts_nodes_only = [(''cluster_node_ips'', PStr ''10.0.0.1,10.0.0.2'')]"

definition opts_selected_9 :: options where
  "opts_selected_9 =
     [(''selected_gpus'', PStr ''9''), (''cluster_node_ips'', PStr ''10.0.0.1,10.0.0.2'')]"

definition opts_selected_4_9 :: options where
  "opts_selected_4_9 = [(''selected_gpus'', PStr ''4,9'')]"

definition opts_unknown :: options where
  "opts_unknown = [(''node_ip'', PStr ''127.0.0.1''), (''gpus'', PStr ''0,1'')]"

text \<open>
  A pool whose only worker has exited with status 0 and has left its value in the return
  queue, and the same pool after \<^verbatim>\<open>join\<close> has reaped that worker.
\<close>

definition pool_last :: "nat multiprocess_context" where
  "pool_last =
     \<lparr>error_queues = [[]],
      return_queues = [[10]],
      processes =
        [\<lparr>sentinel = 10, daemon = False, status = Exited 0, fate = Some 0, on_term = Some (- 15)\<rparr>],
      sentinels = [(10, 0)]\<rparr>"

definition pool_joined :: "nat multiprocess_context" where
  "pool_joined =
     \<lparr>error_queues = [[]],
      return_queues = [[10]],
      processes =
        [\<lparr>sentinel = 10, daemon = False, status = Reaped 0, fate = Some 0, on_term = Some (- 15)\<rparr>],
      sentinels = []\<rparr>"

text \<open>The pool without workers.\<close>

definition empty_pool :: "'r multiprocess_context" where
  "empty_pool = \<lparr>error_queues = [], return_queues = [], processes = [], sentinels = []\<rparr>"

section \<open>Strings: lemmas\<close>

lemma split_on_no_sep: "w \<in> set (split_on c s) \<Longrightarrow> c \<notin> set w"
proof (induction s arbitrary: w)
  case Nil
  then show ?case by simp
next
  case (Cons x s)
  then show ?case
    by (cases "split_on c s") (auto split: if_splits)
qed

lemma split_on_without_sep: "c \<notin> set x \<Longrightarrow> split_on c x = [x]"
  by (induction x) auto

lemma split_on_append_sep: "c \<notin> set x \<Longrightarrow> split_on c (x @ c # r) = x # split_on c r"
  by (induction x) auto

lemma split_on_str_join:
  "xs \<noteq> [] \<Longrightarrow> \<forall>w \<in> set xs. c \<notin> set w \<Longrightarrow> split_on c (str_join [c] xs) = xs"
proof (induction "[c]" xs rule: str_join.induct)
  case 1
  then show ?case by simp
next
  case (2 x)
  then show ?case by (simp add: split_on_without_sep)
next
  case (3 x y ys)
  then show ?case by (simp add: split_on_append_sep)
qed

lemma digit_char_is_digit: "digit_char d \<in> set ''0123456789''"
proof -
  have "d mod 10 < length ''0123456789''" by simp
  then show ?thesis unfolding digit_char_def by (rule nth_mem)
qed

lemma str_nat_digits: "set (str_nat n) \<subseteq> set ''0123456789''"
proof (induction n rule: str_nat.induct)
  case (1 n)
  show ?case
  proof (cases "n < 10")
    case True
    then show ?thesis using digit_char_is_digit[of n] by (subst str_nat.simps) simp
  next
    case False
    then show ?thesis
      using 1 digit_char_is_digit[of "n mod 10"] by (subst str_nat.simps) simp
  qed
qed

lemma str_nat_no_comma: "CHR '','' \<notin> set (str_nat n)"
  using str_nat_digits[of n] by auto

lemma env_devices_no_comma: "w \<in> set (env_devices_list h) \<Longrightarrow> CHR '','' \<notin> set w"
  by (auto simp: env_devices_list_def str_nat_no_comma split: option.splits if_splits
      dest: split_on_no_sep)

lemma map_nth_upt_take: "n \<le> length xs \<Longrightarrow> map (\<lambda>x. xs ! x) [0..<n] = take n xs"
  by (simp add: list_eq_iff_nth_eq)

lemma starts_with_iff: "starts_with s t \<longleftrightarrow> (\<exists>post. s = t @ post)"
  by (induction s t rule: starts_with.induct) auto

lemma contains_str_iff: "contains_str s t \<longleftrightarrow> (\<exists>pre post. s = pre @ t @ post)"
proof (induction s)
  case Nil
  then show ?case by simp
next
  case (Cons x xs)
  show ?case
  proof
    assume "contains_str (x # xs) t"
    then consider "starts_with (x # xs) t" | "contains_str xs t" by auto
    then show "\<exists>pre post. x # xs = pre @ t @ post"
    proof cases
      case 1
      then obtain post where "x # xs = [] @ t @ post" by (auto simp: starts_with_iff)
      then show ?thesis by blast
    next
      case 2
      with Cons.IH obtain pre post where "xs = pre @ t @ post" by blast
      then have "x # xs = (x # pre) @ t @ post" by simp
      then show ?thesis by blast
    qed
  next
    assume "\<exists>pre post. x # xs = pre @ t @ post"
    then obtain pre post where e: "x # xs = pre @ t @ post" by blast
    show "contains_str (x # xs) t"
    proof (cases pre)
      case Nil
      with e have "starts_with (x # xs) t" by (auto simp: starts_with_iff)
      then show ?thesis by simp
    next
      case (Cons a pre')
      with e have "xs = pre' @ t @ post" by simp
      with Cons.IH have "contains_str xs t" by blast
      then show ?thesis by simp
    qed
  qed
qed

section \<open>The supervisor: lemmas\<close>

lemma proc_join_reaped: "proc_join p = Some p' \<Longrightarrow> reaped p'"
  by (auto simp: proc_join_def reaped_def split: pstatus.splits option.splits)

lemma terminate_and_join_reaped: "terminate_and_join p = Some p' \<Longrightarrow> reaped p'"
  unfolding terminate_and_join_def by (rule proc_join_reaped)

lemma drain_reaped:
  "drain ps = Some ps' \<Longrightarrow> (\<forall>p\<in>set ps'. reaped p) \<and> length ps' = length ps"
  by (induction ps arbitrary: ps') (auto split: option.splits dest: terminate_and_join_reaped)

lemma drain_nth:
  "drain ps = Some ps' \<Longrightarrow> k < length ps \<Longrightarrow> terminate_and_join (ps ! k) = Some (ps' ! k)"
proof (induction ps arbitrary: ps' k)
  case Nil
  then show ?case by simp
next
  case (Cons p ps)
  then show ?case
    by (cases k) (auto split: option.splits)
qed

text \<open>A worker that was running and dies on the signal is reaped with that exit code.\<close>

lemma drain_terminated:
  assumes "drain ps = Some ps'" "k < length ps" "status (ps ! k) = Running"
    "on_term (ps ! k) = Some c"
  shows "status (ps' ! k) = Reaped c"
proof -
  have "terminate_and_join (ps ! k) = Some ((ps ! k)\<lparr>fate := Some c, status := Reaped c\<rparr>)"
    using assms(3,4) by (simp add: terminate_and_join_def is_alive_def terminate_def proc_join_def)
  with drain_nth[OF assms(1,2)] have "ps' ! k = (ps ! k)\<lparr>fate := Some c, status := Reaped c\<rparr>"
    by simp
  then show ?thesis by simp
qed

text \<open>The teardown ends when every running worker exits by itself or dies on the signal.\<close>

lemma drain_returns:
  "\<forall>p \<in> set ps. status p = Running \<longrightarrow> fate p \<noteq> None \<or> on_term p \<noteq> None \<Longrightarrow>
     drain ps \<noteq> None"
proof (induction ps)
  case Nil
  then show ?case by simp
next
  case (Cons p ps)
  then have "terminate_and_join p \<noteq> None"
    by (auto simp: terminate_and_join_def is_alive_def terminate_def proc_join_def
          split: pstatus.splits option.splits)
  with Cons show ?case by (auto split: option.splits)
qed

lemma reap_ready_found_nonempty:
  "reap_ready ctx ready = Some (ctx1, Inr (Some i)) \<Longrightarrow> sentinels ctx \<noteq> []"
  by (cases ready) (auto split: option.splits)

lemma reap_ready_length:
  "reap_ready ctx ready = Some (ctx1, r) \<Longrightarrow> length (processes ctx1) = length (processes ctx)"
proof (induction ready arbitrary: ctx)
  case Nil
  then show ?case by simp
next
  case (Cons s ready)
  then show ?case
    by (fastforce simp: Let_def split: option.splits if_splits)
qed

lemma throw_exception_processes:
  "throw_exception sg ctx i = (ctx', e) \<Longrightarrow> processes ctx' = processes ctx"
  by (auto simp: throw_exception_def Let_def split: if_splits option.splits)

text \<open>What a round does once the loop over the batch has found a failing worker.\<close>

lemma join_found:
  assumes "reap_ready ctx ready = Some (ctx1, Inr (Some i))"
  shows "join sg ctx (Some ready) =
           (case drain (processes ctx1) of
              None \<Rightarrow> None
            | Some ps \<Rightarrow> Some (fst (throw_exception sg (ctx1\<lparr>processes := ps\<rparr>) i),
                              Inl (snd (throw_exception sg (ctx1\<lparr>processes := ps\<rparr>) i))))"
  using assms reap_ready_found_nonempty[OF assms]
  by (simp add: join_def split: option.splits prod.splits)

section \<open>The supervisor: properties\<close>

text \<open>
  C8: once the live set of a pool is empty, in particular after a call of
  \<^verbatim>\<open>join\<close> has returned true, every call of \<^verbatim>\<open>join\<close> returns true
  at once, whatever the wait would answer (even if it would never return), without
  raising and without changing the pool.
\<close>

theorem join_idempotent_once_drained:
  "(sentinels ctx = [] \<longrightarrow> join sg ctx w = Some (ctx, Inr True)) \<and>
   (join sg ctx w = Some (ctx', Inr True) \<longrightarrow> join sg ctx' w' = Some (ctx', Inr True))"
  by (auto simp: join_def split: if_splits option.splits sum.splits prod.splits)

theorem join_idempotent_once_drained_witness:
  "sentinels pool_joined = [] \<and>
   join signal_table pool_last (Some [10]) = Some (pool_joined, Inr True) \<and>
   join signal_table pool_joined None = Some (pool_joined, Inr True) \<and>
   join signal_table pool_joined (Some [10]) = Some (pool_joined, Inr True)"
proof -
  have e: "sentinels pool_joined = []"
    by (simp add: pool_joined_def)
  have j: "join signal_table pool_last (Some [10]) = Some (pool_joined, Inr True)"
    by (simp add: join_def pool_last_def pool_joined_def proc_join_def exitcode_def)
  from e join_idempotent_once_drained[of pool_joined signal_table None]
  have a: "join signal_table pool_joined None = Some (pool_joined, Inr True)"
    by blast
  from j join_idempotent_once_drained[of pool_last signal_table "Some [10]" pool_joined "Some [10]"]
  have b: "join signal_table pool_joined (Some [10]) = Some (pool_joined, Inr True)"
    by blast
  from e j a b show ?thesis by (intro conjI)
qed

text \<open>
  C1: when the loop of \<^verbatim>\<open>join\<close> over the batch has found a worker with an exit
  code that is not zero, the call never returns a value: it either never returns (a
  worker that ignores the signal and never exits) or raises, and when it raises every
  process of the pool has been reaped; a worker that was still running and dies on the
  signal has been terminated and is reaped with the exit code of that death. When
  every running worker exits by itself or dies on the signal, the call does raise.
\<close>

theorem join_failure_after_teardown:
  assumes "reap_ready ctx ready = Some (ctx1, Inr (Some i))"
  shows "(join sg ctx (Some ready) = None \<or>
         (\<exists>ctx' e. join sg ctx (Some ready) = Some (ctx', Inl e) \<and>
            length (processes ctx') = length (processes ctx) \<and>
            (\<forall>p \<in> set (processes ctx'). reaped p) \<and>
            (\<forall>k c. k < length (processes ctx1) \<and> status (processes ctx1 ! k) = Running
                     \<and> on_term (processes ctx1 ! k) = Some c
                 \<longrightarrow> status (processes ctx' ! k) = Reaped c)))
       \<and> ((\<forall>p \<in> set (processes ctx1). status p = Running
               \<longrightarrow> fate p \<noteq> None \<or> on_term p \<noteq> None)
            \<longrightarrow> join sg ctx (Some ready) \<noteq> None)"
proof (rule conjI)
  show "join sg ctx (Some ready) = None \<or>
         (\<exists>ctx' e. join sg ctx (Some ready) = Some (ctx', Inl e) \<and>
            length (processes ctx') = length (processes ctx) \<and>
            (\<forall>p \<in> set (processes ctx'). reaped p) \<and>
            (\<forall>k c. k < length (processes ctx1) \<and> status (processes ctx1 ! k) = Running
                     \<and> on_term (processes ctx1 ! k) = Some c
                 \<longrightarrow> status (processes ctx' ! k) = Reaped c))"
  proof (cases "drain (processes ctx1)")
    case None
    with join_found[OF assms, of sg] show ?thesis by simp
  next
    case (Some ps)
    obtain ctx' e where t: "throw_exception sg (ctx1\<lparr>processes := ps\<rparr>) i = (ctx', e)"
      by (cases "throw_exception sg (ctx1\<lparr>processes := ps\<rparr>) i") auto
    from throw_exception_processes[OF t] have ps: "processes ctx' = ps" by simp
    have j: "join sg ctx (Some ready) = Some (ctx', Inl e)"
      using join_found[OF assms, of sg] Some t by simp
    have l: "length (processes ctx') = length (processes ctx)"
      using ps drain_reaped[OF Some] reap_ready_length[OF assms] by simp
    have r: "\<forall>p \<in> set (processes ctx'). reaped p"
      using ps drain_reaped[OF Some] by simp
    have k: "\<forall>k c. k < length (processes ctx1) \<and> status (processes ctx1 ! k) = Running
                       \<and> on_term (processes ctx1 ! k) = Some c
                   \<longrightarrow> status (processes ctx' ! k) = Reaped c"
      using ps drain_terminated[OF Some] by blast
    from j l r k show ?thesis by blast
  qed
next
  show "(\<forall>p \<in> set (processes ctx1). status p = Running
               \<longrightarrow> fate p \<noteq> None \<or> on_term p \<noteq> None)
            \<longrightarrow> join sg ctx (Some ready) \<noteq> None"
  proof
    assume "\<forall>p \<in> set (processes ctx1). status p = Running
               \<longrightarrow> fate p \<noteq> None \<or> on_term p \<noteq> None"
    then have "drain (processes ctx1) \<noteq> None" by (rule drain_returns)
    with join_found[OF assms, of sg] show "join sg ctx (Some ready) \<noteq> None"
      by (auto split: option.splits)
  qed
qed

lemma pool3_reap_ready: "reap_ready pool3 [10, 11] = Some (pool3_inspected, Inr (Some 0))"
  by (simp add: pool3_def pool3_inspected_def proc_join_def exitcode_def)


theorem join_failure_after_teardown_witness:
  "reap_ready pool3 [10, 11] = Some (pool3_inspected, Inr (Some 0)) \<and>
   join signal_table pool3 (Some [10, 11]) \<noteq> None \<and>
   (join signal_table pool3 (Some [10, 11]) = None \<or>
         (\<exists>ctx' e. join signal_table pool3 (Some [10, 11]) = Some (ctx', Inl e) \<and>
            length (processes ctx') = length (processes pool3) \<and>
            (\<forall>p \<in> set (processes ctx'). reaped p) \<and>
            (\<forall>k c. k < length (processes pool3_inspected)
                     \<and> status (processes pool3_inspected ! k) = Running
                     \<and> on_term (processes pool3_inspected ! k) = Some c
                 \<longrightarrow> status (processes ctx' ! k) = Reaped c)))"
proof -
  have h: "reap_ready pool3 [10, 11] = Some (pool3_inspected, Inr (Some 0))"
    by (rule pool3_reap_ready)
  have a: "\<forall>p \<in> set (processes pool3_inspected). status p = Running
               \<longrightarrow> fate p \<noteq> None \<or> on_term p \<noteq> None"
    by (simp add: pool3_inspected_def)
  from a join_failure_after_teardown[OF h, of signal_table]
  have n: "join signal_table pool3 (Some [10, 11]) \<noteq> None" by blast
  from h n join_failure_after_teardown[OF h, of signal_table] show ?thesis
    by (intro conjI) blast+
qed


lemma proc_join_final_code:
  "proc_join p = Some p' \<Longrightarrow> final_code p' = final_code p \<and> exitcode p' = final_code p"
  by (auto simp: proc_join_def final_code_def exitcode_def split: pstatus.splits option.splits)


lemma final_code_update:
  assumes "proc_join (ps ! index) = Some p" "index < length ps"
  shows "final_code (ps[index := p] ! j) = final_code (ps ! j)"
  using assms proc_join_final_code[OF assms(1)]
  by (cases "j = index") simp_all

text \<open>One step of the loop over the batch, taken apart.\<close>

lemma reap_ready_Cons_cases:
  assumes "reap_ready ctx (s # ready) = Some (ctx1, Inr r)"
  obtains index d p where
    "dict_pop (sentinels ctx) s = Some (index, d)"
    "index < length (processes ctx)"
    "proc_join (processes ctx ! index) = Some p"
    "(exitcode p \<noteq> Some 0 \<and> r = Some index
        \<and> ctx1 = ctx\<lparr>sentinels := d, processes := (processes ctx)[index := p]\<rparr>) \<or>
     (exitcode p = Some 0
        \<and> reap_ready (ctx\<lparr>sentinels := d, processes := (processes ctx)[index := p]\<rparr>) ready
            = Some (ctx1, Inr r))"
proof -
  from assms obtain index d where pop: "dict_pop (sentinels ctx) s = Some (index, d)"
    by (cases "dict_pop (sentinels ctx) s") auto
  from assms pop have lt: "index < length (processes ctx)"
    by (auto simp: Let_def split: if_splits)
  from assms pop lt obtain p where pj: "proc_join (processes ctx ! index) = Some p"
    by (cases "proc_join (processes ctx ! index)") (auto simp: Let_def)
  from assms pop lt pj have
    "(exitcode p \<noteq> Some 0 \<and> r = Some index
        \<and> ctx1 = ctx\<lparr>sentinels := d, processes := (processes ctx)[index := p]\<rparr>) \<or>
     (exitcode p = Some 0
        \<and> reap_ready (ctx\<lparr>sentinels := d, processes := (processes ctx)[index := p]\<rparr>) ready
            = Some (ctx1, Inr r))"
    by (auto simp: Let_def split: if_splits)
  with pop lt pj that show thesis by blast
qed
















text \<open>
  The two branches of \<^verbatim>\<open>_throw_exception\<close> for an empty error queue: the one for
  a negative exit code formats its message and names the worker and the signal, the
  one for the other exit codes ends in the \<^verbatim>\<open>TypeError\<close>.
\<close>

lemma throw_exception_negative_exit_code:
  assumes "i < length (error_queues ctx)" "error_queues ctx ! i = []"
    "i < length (processes ctx)" "exitcode (processes ctx ! i) = Some c" "c < 0"
    "sg (- c) = Some name"
  shows "throw_exception sg ctx i =
           (ctx, Exception (''Process '' @ str_nat i @ '' terminated with signal '' @ name @ ''.''))"
  using assms by (simp add: throw_exception_def)

lemma throw_exception_other_exit_code:
  assumes "i < length (error_queues ctx)" "error_queues ctx ! i = []"
    "i < length (processes ctx)" "exitcode (processes ctx ! i) = Some c" "0 \<le> c"
  shows "throw_exception sg ctx i = (ctx, str_and_tuple_error)"
  using assms by (simp add: throw_exception_def)

text \<open>
  C3 (the code departs from the claim): a worker that left its error queue empty and
  exited with status 3 makes \<^verbatim>\<open>join\<close> raise the \<^verbatim>\<open>TypeError\<close> of
  \<^verbatim>\<open>&\<close> on a string and a tuple, not a failure whose message names the worker
  and the exit code.
\<close>

theorem join_positive_exit_code_TypeError:
  "join signal_table pool_exit3 (Some [10]) = Some (pool_exit3_failed, Inl str_and_tuple_error)"
  by (simp add: join_def pool_exit3_def pool_exit3_failed_def proc_join_def exitcode_def
        is_alive_def terminate_def terminate_and_join_def throw_exception_def)






section \<open>The worker wrapper and interrupted workers\<close>

lemma reap_ready_found_code:
  "reap_ready ctx ready = Some (ctx1, Inr (Some i)) \<Longrightarrow>
     i < length (processes ctx) \<and> final_code (processes ctx ! i) \<noteq> Some 0"
proof (induction ready arbitrary: ctx)
  case Nil
  then show ?case by simp
next
  case (Cons s ready)
  from Cons.prems obtain index d p where
    pop: "dict_pop (sentinels ctx) s = Some (index, d)"
    and lt: "index < length (processes ctx)"
    and pj: "proc_join (processes ctx ! index) = Some p"
    and step: "(exitcode p \<noteq> Some 0 \<and> Some i = Some index
        \<and> ctx1 = ctx\<lparr>sentinels := d, processes := (processes ctx)[index := p]\<rparr>) \<or>
     (exitcode p = Some 0
        \<and> reap_ready (ctx\<lparr>sentinels := d, processes := (processes ctx)[index := p]\<rparr>) ready
            = Some (ctx1, Inr (Some i)))"
    by (rule reap_ready_Cons_cases)
  from proc_join_final_code[OF pj] have fc: "exitcode p = final_code (processes ctx ! index)"
    by simp
  from step show ?case
  proof
    assume "exitcode p \<noteq> Some 0 \<and> Some i = Some index
        \<and> ctx1 = ctx\<lparr>sentinels := d, processes := (processes ctx)[index := p]\<rparr>"
    with fc lt show ?thesis by simp
  next
    assume "exitcode p = Some 0
        \<and> reap_ready (ctx\<lparr>sentinels := d, processes := (processes ctx)[index := p]\<rparr>) ready
            = Some (ctx1, Inr (Some i))"
    then have "reap_ready (ctx\<lparr>sentinels := d, processes := (processes ctx)[index := p]\<rparr>) ready
            = Some (ctx1, Inr (Some i))" by simp
    from Cons.IH[OF this] final_code_update[OF pj lt] show ?thesis by simp
  qed
qed

text \<open>A worker with exit code zero, alone in the batch, is reaped and the round returns.\<close>

lemma join_single_success:
  assumes pop: "dict_pop (sentinels ctx) s = Some (i, d)"
    and lt: "i < length (processes ctx)"
    and fc: "final_code (processes ctx ! i) = Some 0"
  shows "join sg ctx (Some [s]) =
           Some (ctx\<lparr>sentinels := d,
                      processes := (processes ctx)[i := (processes ctx ! i)\<lparr>status := Reaped 0\<rparr>]\<rparr>,
                 Inr (d = []))"
proof -
  from pop have ne: "sentinels ctx \<noteq> []" by (cases "sentinels ctx") auto
  from fc have pj: "proc_join (processes ctx ! i) = Some ((processes ctx ! i)\<lparr>status := Reaped 0\<rparr>)"
    by (auto simp: final_code_def proc_join_def split: pstatus.splits)
  have ec: "exitcode ((processes ctx ! i)\<lparr>status := Reaped 0\<rparr>) = Some 0"
    by (simp add: exitcode_def)
  from ne pop lt pj ec show ?thesis
    by (simp add: join_def Let_def)
qed

text \<open>
  C9: a worker whose function is stopped by \<^verbatim>\<open>KeyboardInterrupt\<close> leaves both
  queues as they were and exits with status 0. A process of the pool with that exit
  code is never the failing index of a round, whatever the batch; and a round whose
  batch is that worker alone reaps it, touches no other process and returns whether
  the live set is now empty, without teardown and without raising.
\<close>

theorem interrupted_worker_is_success:
  assumes "func (set_trainer_env env_dict (remove_risky_env environ))
             = Some (Raises KeyboardInterrupt trace)"
    and "dict_pop (sentinels ctx) s = Some (i, d)"
    and "i < length (processes ctx)"
    and "final_code (processes ctx ! i) = worker_exitcode func eq rq env_dict environ"
  shows "worker_exitcode func eq rq env_dict environ = Some 0
       \<and> map_option w_error_queue (func_wrapper func eq rq env_dict environ) = Some eq
       \<and> map_option w_return_queue (func_wrapper func eq rq env_dict environ) = Some rq
       \<and> reap_ready ctx ready \<noteq> Some (ctx1, Inr (Some i))
       \<and> join sg ctx (Some [s]) =
           Some (ctx\<lparr>sentinels := d,
                      processes := (processes ctx)[i := (processes ctx ! i)\<lparr>status := Reaped 0\<rparr>]\<rparr>,
                 Inr (d = []))"
proof -
  have w: "worker_exitcode func eq rq env_dict environ = Some 0"
    using assms(1) by (simp add: worker_exitcode_def func_wrapper_def except_clauses_def)
  have e: "map_option w_error_queue (func_wrapper func eq rq env_dict environ) = Some eq"
    using assms(1) by (simp add: func_wrapper_def except_clauses_def)
  have r: "map_option w_return_queue (func_wrapper func eq rq env_dict environ) = Some rq"
    using assms(1) by (simp add: func_wrapper_def except_clauses_def)
  from w assms(4) have fc: "final_code (processes ctx ! i) = Some 0" by simp
  have n: "reap_ready ctx ready \<noteq> Some (ctx1, Inr (Some i))"
    using reap_ready_found_code[of ctx ready ctx1 i] fc by blast
  from w e r n join_single_success[OF assms(2,3) fc] show ?thesis by simp
qed

theorem interrupted_worker_is_success_witness:
  "interrupted_func (set_trainer_env [] (remove_risky_env Map.empty))
      = Some (Raises KeyboardInterrupt ''KeyboardInterrupt'')
   \<and> dict_pop (sentinels pool_interrupted) 10 = Some (0, [(11, 1)])
   \<and> 0 < length (processes pool_interrupted)
   \<and> final_code (processes pool_interrupted ! 0)
        = worker_exitcode interrupted_func [] [] [] Map.empty
   \<and> worker_exitcode interrupted_func [] [] [] Map.empty = Some 0
   \<and> map_option w_error_queue (func_wrapper interrupted_func [] [] [] Map.empty) = Some []
   \<and> map_option w_return_queue (func_wrapper interrupted_func [] [] [] Map.empty) = Some []
   \<and> reap_ready pool_interrupted [10, 11] \<noteq> Some (pool_interrupted, Inr (Some 0))
   \<and> join signal_table pool_interrupted (Some [10]) =
           Some (pool_interrupted\<lparr>sentinels := [(11, 1)],
                   processes := (processes pool_interrupted)
                      [0 := (processes pool_interrupted ! 0)\<lparr>status := Reaped 0\<rparr>]\<rparr>,
                 Inr ([(11, 1 :: nat)] = ([] :: (nat \<times> nat) list)))"
proof -
  have a: "interrupted_func (set_trainer_env [] (remove_risky_env Map.empty))
      = Some (Raises KeyboardInterrupt ''KeyboardInterrupt'')"
    by (simp add: interrupted_func_def)
  have b: "dict_pop (sentinels pool_interrupted) 10 = Some (0, [(11, 1)])"
    by (simp add: pool_interrupted_def)
  have c: "0 < length (processes pool_interrupted)"
    by (simp add: pool_interrupted_def)
  have d: "final_code (processes pool_interrupted ! 0)
        = worker_exitcode interrupted_func [] [] [] Map.empty"
    by (simp add: pool_interrupted_def final_code_def worker_exitcode_def func_wrapper_def
          except_clauses_def interrupted_func_def)
  from a b c d interrupted_worker_is_success[OF a b c d, of "[10, 11]" pool_interrupted signal_table]
  show ?thesis by (intro conjI) blast+
qed





section \<open>Planning: lemmas\<close>

lemma planning_node_ip_missing:
  "node_ip_missing opts \<Longrightarrow>
     get_subprocess_env_list h N opts =
       Inl (ValueError ''please input current node ip, cannot only give `cluster_node_ips`.'')"
  by (simp add: get_subprocess_env_list_def node_ip_missing_def ParallelEnvArgs_init_def Let_def)

lemma planning_without_selected:
  assumes "\<not> node_ip_missing opts" "options_get opts ''selected_gpus'' PNone = PNone"
  shows "get_subprocess_env_list h N opts =
     (if int (length (env_devices_list h)) < N
      then Inl (RuntimeError (''the number of visible devices('' @ str_nat (length (env_devices_list h))
                  @ '') is less than the number ''
                  @ ''of spawn processes('' @ str_int N @ ''), please ensure that the correct ''
                  @ ''`nprocs` argument is passed or the environment variable ''
                  @ ''`CUDA_VISIBLE_DEVICES` is correctly configured.''))
      else trainer_envs h (planned_args opts
             (PStr (str_join '','' (map (\<lambda>x. env_devices_list h ! x) [0..<nat N])))))"
  using assms
  by (cases "options_get opts ''cluster_node_ips'' PNone = PNone";
      cases "options_get opts ''node_ip'' PNone = PNone")
     (simp_all add: get_subprocess_env_list_def node_ip_missing_def ParallelEnvArgs_init_def
        Let_def planned_args_def)

lemma planning_with_selected:
  assumes "\<not> node_ip_missing opts" "options_get opts ''selected_gpus'' PNone = PStr selected"
  shows "get_subprocess_env_list h N opts =
     (case check_selected (env_devices_list h) (split_on CHR '','' selected) of
        Some e \<Rightarrow> Inl e
      | None \<Rightarrow> trainer_envs h (planned_args opts (PStr selected)))"
  using assms
  by (cases "options_get opts ''cluster_node_ips'' PNone = PNone";
      cases "options_get opts ''node_ip'' PNone = PNone")
     (simp_all add: get_subprocess_env_list_def node_ip_missing_def ParallelEnvArgs_init_def
        Let_def planned_args_def split: option.splits)

lemma check_selected_first:
  "\<exists>card_id \<in> set ids. card_id \<notin> set devices \<Longrightarrow>
     \<exists>pre card_id post. ids = pre @ card_id # post \<and> card_id \<notin> set devices
        \<and> (\<forall>x \<in> set pre. x \<in> set devices)
        \<and> check_selected devices ids =
            Some (ValueError (''The selected gpu card '' @ card_id
                   @ '' cannot found in CUDA_VISIBLE_DEVICES ('' @ str_join '','' devices @ '').''))"
proof (induction ids)
  case Nil
  then show ?case by simp
next
  case (Cons a ids)
  show ?case
  proof (cases "a \<in> set devices")
    case False
    then have "a # ids = [] @ a # ids \<and> a \<notin> set devices \<and> (\<forall>x \<in> set []. x \<in> set devices)
        \<and> check_selected devices (a # ids) =
            Some (ValueError (''The selected gpu card '' @ a
                   @ '' cannot found in CUDA_VISIBLE_DEVICES ('' @ str_join '','' devices @ '').''))"
      by simp
    then show ?thesis by blast
  next
    case True
    with Cons.prems have "\<exists>card_id \<in> set ids. card_id \<notin> set devices" by auto
    from Cons.IH[OF this] obtain pre card_id post where
      p: "ids = pre @ card_id # post" "card_id \<notin> set devices" "\<forall>x \<in> set pre. x \<in> set devices"
      "check_selected devices ids =
            Some (ValueError (''The selected gpu card '' @ card_id
                   @ '' cannot found in CUDA_VISIBLE_DEVICES ('' @ str_join '','' devices @ '').''))"
      by blast
    with True have "a # ids = (a # pre) @ card_id # post \<and> card_id \<notin> set devices
        \<and> (\<forall>x \<in> set (a # pre). x \<in> set devices)
        \<and> check_selected devices (a # ids) =
            Some (ValueError (''The selected gpu card '' @ card_id
                   @ '' cannot found in CUDA_VISIBLE_DEVICES ('' @ str_join '','' devices @ '').''))"
      by simp
    then show ?thesis by blast
  qed
qed

lemma planning_failure_is_ConfigurationError_selected:
  assumes "options_get opts ''selected_gpus'' PNone = PStr selected"
    and "\<exists>card_id \<in> set (split_on CHR '','' selected). card_id \<notin> set (env_devices_list h)"
  shows "\<exists>e. get_subprocess_env_list h N opts = Inl e \<and> ConfigurationError e"
proof (cases "node_ip_missing opts")
  case True
  then show ?thesis by (simp add: planning_node_ip_missing)
next
  case False
  from check_selected_first[OF assms(2)] obtain e where
    "check_selected (env_devices_list h) (split_on CHR '','' selected) = Some e" "ConfigurationError e"
    by force
  with planning_with_selected[OF False assms(1), of h N] show ?thesis by simp
qed

text \<open>A failure of planning ends \<^verbatim>\<open>spawn\<close> before any process is started.\<close>

lemma spawn_planning_fails:
  assumes "get_subprocess_env_list h (default_nprocs h nprocs) opts = Inl e"
  shows "\<exists>e'. spawn h nprocs do_join dmn opts = Some (0, Inl e')"
  using assms by (simp add: spawn_def split: option.splits)

lemma host4_devices: "env_devices_list host4 = [''4'', ''5'', ''6'', ''7'']"
  by (simp add: env_devices_list_def host4_def)

text \<open>
  The plan that the resolver of the specification makes of a selection of ids: one
  record per id, in the order of the selection.
\<close>

lemma resolved_trainer_envs_selection:
  assumes "selected_gpus args = PStr (str_join '','' ids)" "ids \<noteq> []"
    "\<forall>w \<in> set ids. CHR '','' \<notin> set w"
  shows "\<exists>envs. resolved_trainer_envs peers args = Inr envs
           \<and> length envs = length ids
           \<and> (\<forall>i < length ids.
                  map_of (envs ! i) ''FLAGS_selected_gpus'' = Some (ids ! i)
                \<and> map_of (envs ! i) ''PADDLE_TRAINER_ID'' = Some (str_nat i)
                \<and> map_of (envs ! i) ''PADDLE_TRAINERS_NUM'' = Some (str_nat (length ids)))"
  using assms split_on_str_join[OF assms(2,3)]
  by (simp add: resolved_trainer_envs_def resolve_def prepare_trainer_env_def)

lemma resolved_trainer_envs_returns:
  "selected_gpus args = PStr selected \<Longrightarrow> \<exists>envs. resolved_trainer_envs peers args = Inr envs"
  by (simp add: resolved_trainer_envs_def)

lemma str_nat_examples:
  "str_nat 0 = ''0''" "str_nat 1 = ''1''" "str_nat (Suc 0) = ''1''" "str_nat 2 = ''2''"
  "str_nat (Suc (Suc 0)) = ''2''"
  "str_nat 6170 = ''6170''" "str_nat 6171 = ''6171''"
  by (simp_all add: str_nat.simps digit_char_def)

lemma host4_resolved_devices: "env_devices_list host4_resolved = [''4'', ''5'', ''6'', ''7'']"
  by (simp add: env_devices_list_def host4_resolved_def host4_def)

section \<open>Planning: properties\<close>

text \<open>
  C5, as stated, fails: with four visible devices, two workers and no device
  selection, an option set that names a node list without the address of the current
  node makes planning fail; no device is bound.
\<close>

theorem planning_node_ip_counterexample:
  "options_get opts_nodes_only ''selected_gpus'' PNone = PNone
   \<and> \<not> int (length (env_devices_list host4)) < 2
   \<and> get_subprocess_env_list host4 2 opts_nodes_only =
       Inl (ValueError ''please input current node ip, cannot only give `cluster_node_ips`.'')"
  by (simp add: host4_devices planning_node_ip_missing node_ip_missing_def options_get_def
        opts_nodes_only_def)

text \<open>
  C5, amended: for every worker count \<open>N\<close> and every option set without a device
  selection: if fewer than \<open>N\<close> devices are visible, planning fails with a
  \<^verbatim>\<open>ConfigurationError\<close> and \<^verbatim>\<open>spawn\<close> raises with no process started;
  otherwise, when the option set does not name a node list without the current node's
  address, the planner hands to the resolver the selection made of the first \<open>N\<close>
  visible devices in visibility order, which for \<open>N > 0\<close>, read back as a
  comma-separated list, is exactly those \<open>N\<close> devices; and with the resolver that the
  specification describes planning succeeds, for \<open>N > 0\<close> the plan has exactly \<open>N\<close>
  records, and the record of worker \<open>i\<close>, for every \<open>i\<close> below \<open>N\<close>, binds the
  \<open>i\<close>-th visible device, with rank \<open>i\<close> and world size \<open>N\<close>.
\<close>

theorem planning_default_selection:
  assumes "options_get opts ''selected_gpus'' PNone = PNone"
  shows "(int (length (env_devices_list h)) < N \<longrightarrow>
            (\<exists>e. get_subprocess_env_list h N opts = Inl e \<and> ConfigurationError e)
            \<and> (\<exists>e. spawn h N do_join dmn opts = Some (0, Inl e)))
       \<and> (\<not> int (length (env_devices_list h)) < N \<and> \<not> node_ip_missing opts \<longrightarrow>
            get_subprocess_env_list h N opts =
              trainer_envs h (planned_args opts
                 (PStr (str_join '','' (take (nat N) (env_devices_list h)))))
            \<and> (0 < N \<longrightarrow>
                 split_on CHR '','' (str_join '','' (take (nat N) (env_devices_list h)))
                   = take (nat N) (env_devices_list h)))
       \<and> (\<not> int (length (env_devices_list h)) < N \<and> \<not> node_ip_missing opts
            \<and> trainer_envs h = resolved_trainer_envs peers \<longrightarrow>
            (\<exists>envs. get_subprocess_env_list h N opts = Inr envs
               \<and> (0 < N \<longrightarrow> length envs = nat N)
               \<and> (\<forall>i < nat N.
                      map_of (envs ! i) ''FLAGS_selected_gpus'' = Some (env_devices_list h ! i)
                    \<and> map_of (envs ! i) ''PADDLE_TRAINER_ID'' = Some (str_nat i)
                    \<and> map_of (envs ! i) ''PADDLE_TRAINERS_NUM'' = Some (str_nat (nat N)))))"
proof (intro conjI impI)
  assume less: "int (length (env_devices_list h)) < N"
  show fails: "\<exists>e. get_subprocess_env_list h N opts = Inl e \<and> ConfigurationError e"
  proof (cases "node_ip_missing opts")
    case True
    then show ?thesis by (simp add: planning_node_ip_missing)
  next
    case False
    from planning_without_selected[OF False assms, of h N] less show ?thesis by simp
  qed
  from less have "N \<noteq> - 1" by simp
  then have "default_nprocs h N = N" by (simp add: default_nprocs_def)
  with fails spawn_planning_fails[of h N opts _ do_join dmn]
  show "\<exists>e. spawn h N do_join dmn opts = Some (0, Inl e)" by auto
next
  assume a: "\<not> int (length (env_devices_list h)) < N \<and> \<not> node_ip_missing opts"
  then have le: "nat N \<le> length (env_devices_list h)" by linarith
  from a planning_without_selected[of opts h N] assms map_nth_upt_take[OF le]
  show "get_subprocess_env_list h N opts =
              trainer_envs h (planned_args opts
                 (PStr (str_join '','' (take (nat N) (env_devices_list h)))))"
    by simp
next
  assume a: "\<not> int (length (env_devices_list h)) < N \<and> \<not> node_ip_missing opts"
    and pos: "0 < N"
  from a pos have "0 < nat N" "0 < length (env_devices_list h)" by linarith+
  then have ne: "take (nat N) (env_devices_list h) \<noteq> []" by simp
  have nc: "\<forall>w \<in> set (take (nat N) (env_devices_list h)). CHR '','' \<notin> set w"
    using env_devices_no_comma[of _ h] by (auto dest: in_set_takeD)
  from split_on_str_join[OF ne nc]
  show "split_on CHR '','' (str_join '','' (take (nat N) (env_devices_list h)))
          = take (nat N) (env_devices_list h)" .
next
  assume a: "\<not> int (length (env_devices_list h)) < N \<and> \<not> node_ip_missing opts
            \<and> trainer_envs h = resolved_trainer_envs peers"
  let ?ids = "take (nat N) (env_devices_list h)"
  let ?args = "planned_args opts (PStr (str_join '','' ?ids))"
  from a have le: "nat N \<le> length (env_devices_list h)" by linarith
  then have len: "length ?ids = nat N" by simp
  from a planning_without_selected[of opts h N] assms map_nth_upt_take[OF le]
  have plan: "get_subprocess_env_list h N opts = resolved_trainer_envs peers ?args"
    by simp
  have sel: "selected_gpus ?args = PStr (str_join '','' ?ids)"
    by (simp add: planned_args_def)
  show "\<exists>envs. get_subprocess_env_list h N opts = Inr envs
               \<and> (0 < N \<longrightarrow> length envs = nat N)
               \<and> (\<forall>i < nat N.
                      map_of (envs ! i) ''FLAGS_selected_gpus'' = Some (env_devices_list h ! i)
                    \<and> map_of (envs ! i) ''PADDLE_TRAINER_ID'' = Some (str_nat i)
                    \<and> map_of (envs ! i) ''PADDLE_TRAINERS_NUM'' = Some (str_nat (nat N)))"
  proof (cases "0 < N")
    case True
    with le have ne: "?ids \<noteq> []" by auto
    have nc: "\<forall>w \<in> set ?ids. CHR '','' \<notin> set w"
      using env_devices_no_comma[of _ h] by (auto dest: in_set_takeD)
    from resolved_trainer_envs_selection[OF sel ne nc, of peers] obtain envs where
      e: "resolved_trainer_envs peers ?args = Inr envs"
      and l: "length envs = length ?ids"
      and b: "\<forall>i < length ?ids.
                  map_of (envs ! i) ''FLAGS_selected_gpus'' = Some (?ids ! i)
                \<and> map_of (envs ! i) ''PADDLE_TRAINER_ID'' = Some (str_nat i)
                \<and> map_of (envs ! i) ''PADDLE_TRAINERS_NUM'' = Some (str_nat (length ?ids))"
      by blast
    from b len have "\<forall>i < nat N.
                      map_of (envs ! i) ''FLAGS_selected_gpus'' = Some (env_devices_list h ! i)
                    \<and> map_of (envs ! i) ''PADDLE_TRAINER_ID'' = Some (str_nat i)
                    \<and> map_of (envs ! i) ''PADDLE_TRAINERS_NUM'' = Some (str_nat (nat N))"
      by simp
    with plan e l len show ?thesis by simp
  next
    case False
    then have z: "nat N = 0" by simp
    from resolved_trainer_envs_returns[OF sel, of peers] plan z show ?thesis by auto
  qed
qed

theorem planning_default_selection_witness:
  "options_get [] ''selected_gpus'' PNone = PNone
   \<and> int (length (env_devices_list host4_resolved)) < 5
   \<and> (\<exists>e. get_subprocess_env_list host4_resolved 5 [] = Inl e \<and> ConfigurationError e)
   \<and> (\<exists>e. spawn host4_resolved 5 True False [] = Some (0, Inl e))
   \<and> \<not> int (length (env_devices_list host4_resolved)) < 2 \<and> \<not> node_ip_missing []
   \<and> trainer_envs host4_resolved = resolved_trainer_envs loopback_peers
   \<and> get_subprocess_env_list host4_resolved 2 [] =
        trainer_envs host4_resolved
          (planned_args [] (PStr (str_join '','' (take (nat 2) (env_devices_list host4_resolved)))))
   \<and> split_on CHR '','' (str_join '','' (take (nat 2) (env_devices_list host4_resolved)))
        = take (nat 2) (env_devices_list host4_resolved)
   \<and> take (nat 2) (env_devices_list host4_resolved) = [''4'', ''5'']
   \<and> (\<exists>envs. get_subprocess_env_list host4_resolved 2 [] = Inr envs
         \<and> length envs = 2
         \<and> map_of (envs ! 0) ''FLAGS_selected_gpus'' = Some ''4''
         \<and> map_of (envs ! 0) ''PADDLE_TRAINER_ID'' = Some ''0''
         \<and> map_of (envs ! 0) ''PADDLE_TRAINERS_NUM'' = Some ''2''
         \<and> map_of (envs ! 1) ''FLAGS_selected_gpus'' = Some ''5''
         \<and> map_of (envs ! 1) ''PADDLE_TRAINER_ID'' = Some ''1''
         \<and> map_of (envs ! 1) ''PADDLE_TRAINERS_NUM'' = Some ''2'')
   \<and> get_subprocess_env_list host4_resolved 2 [] =
        Inr [[(''FLAGS_selected_gpus'', ''4''), (''PADDLE_TRAINER_ID'', ''0''),
              (''PADDLE_TRAINERS_NUM'', ''2''),
              (''PADDLE_TRAINER_ENDPOINTS'', ''127.0.0.1:6170,127.0.0.1:6171'')],
             [(''FLAGS_selected_gpus'', ''5''), (''PADDLE_TRAINER_ID'', ''1''),
              (''PADDLE_TRAINERS_NUM'', ''2''),
              (''PADDLE_TRAINER_ENDPOINTS'', ''127.0.0.1:6170,127.0.0.1:6171'')]]"
proof -
  let ?h = host4_resolved
  have s: "options_get [] ''selected_gpus'' PNone = PNone" by (simp add: options_get_def)
  have l5: "int (length (env_devices_list ?h)) < 5" by (simp add: host4_resolved_devices)
  have l2: "\<not> int (length (env_devices_list ?h)) < 2 \<and> \<not> node_ip_missing []"
    by (simp add: host4_resolved_devices node_ip_missing_def options_get_def)
  have r: "trainer_envs ?h = resolved_trainer_envs loopback_peers"
    by (simp add: host4_resolved_def)
  have p: "(0::int) < 2" by simp
  have t: "take (nat 2) (env_devices_list ?h) = [''4'', ''5'']"
    by (simp add: host4_resolved_devices)
  from planning_default_selection[OF s, of ?h 5 True False] l5
  have 1: "(\<exists>e. get_subprocess_env_list ?h 5 [] = Inl e \<and> ConfigurationError e)
            \<and> (\<exists>e. spawn ?h 5 True False [] = Some (0, Inl e))"
    by blast
  from planning_default_selection[OF s, of ?h 2] l2 p
  have 2: "get_subprocess_env_list ?h 2 [] =
        trainer_envs ?h (planned_args [] (PStr (str_join '','' (take (nat 2) (env_devices_list ?h)))))
       \<and> split_on CHR '','' (str_join '','' (take (nat 2) (env_devices_list ?h)))
        = take (nat 2) (env_devices_list ?h)"
    by blast
  from planning_default_selection[OF s, of ?h 2 _ _ loopback_peers] l2 r p
  obtain envs where e: "get_subprocess_env_list ?h 2 [] = Inr envs"
    and n: "length envs = nat 2"
    and b: "\<forall>i < nat 2.
               map_of (envs ! i) ''FLAGS_selected_gpus'' = Some (env_devices_list ?h ! i)
             \<and> map_of (envs ! i) ''PADDLE_TRAINER_ID'' = Some (str_nat i)
             \<and> map_of (envs ! i) ''PADDLE_TRAINERS_NUM'' = Some (str_nat (nat 2))"
    by blast
  have i0: "(0::nat) < nat 2" and i1: "(1::nat) < nat 2" by simp_all
  from b i0 have b0: "map_of (envs ! 0) ''FLAGS_selected_gpus'' = Some ''4''
         \<and> map_of (envs ! 0) ''PADDLE_TRAINER_ID'' = Some ''0''
         \<and> map_of (envs ! 0) ''PADDLE_TRAINERS_NUM'' = Some ''2''"
    by (simp add: host4_resolved_devices str_nat_examples)
  from b i1 have b1: "map_of (envs ! 1) ''FLAGS_selected_gpus'' = Some ''5''
         \<and> map_of (envs ! 1) ''PADDLE_TRAINER_ID'' = Some ''1''
         \<and> map_of (envs ! 1) ''PADDLE_TRAINERS_NUM'' = Some ''2''"
    by (simp add: host4_resolved_devices str_nat_examples)
  from e n b0 b1 have 3: "\<exists>envs. get_subprocess_env_list ?h 2 [] = Inr envs
         \<and> length envs = 2
         \<and> map_of (envs ! 0) ''FLAGS_selected_gpus'' = Some ''4''
         \<and> map_of (envs ! 0) ''PADDLE_TRAINER_ID'' = Some ''0''
         \<and> map_of (envs ! 0) ''PADDLE_TRAINERS_NUM'' = Some ''2''
         \<and> map_of (envs ! 1) ''FLAGS_selected_gpus'' = Some ''5''
         \<and> map_of (envs ! 1) ''PADDLE_TRAINER_ID'' = Some ''1''
         \<and> map_of (envs ! 1) ''PADDLE_TRAINERS_NUM'' = Some ''2''"
    by simp
  have 4: "get_subprocess_env_list ?h 2 [] =
        Inr [[(''FLAGS_selected_gpus'', ''4''), (''PADDLE_TRAINER_ID'', ''0''),
              (''PADDLE_TRAINERS_NUM'', ''2''),
              (''PADDLE_TRAINER_ENDPOINTS'', ''127.0.0.1:6170,127.0.0.1:6171'')],
             [(''FLAGS_selected_gpus'', ''5''), (''PADDLE_TRAINER_ID'', ''1''),
              (''PADDLE_TRAINERS_NUM'', ''2''),
              (''PADDLE_TRAINER_ENDPOINTS'', ''127.0.0.1:6170,127.0.0.1:6171'')]]"
    using 2 r t
    by (simp add: resolved_trainer_envs_def resolve_def prepare_trainer_env_def
          planned_args_def loopback_peers_def str_nat_examples options_get_def
          upt_conv_Cons)
  from s l5 1 l2 r 2 t 3 4 show ?thesis by (intro conjI) blast+
qed

text \<open>
  C6, as stated, fails: the selection \<open>9\<close> is not visible, but the option set also
  names a node list without the current node's address, and planning raises the error
  of that check, whose message does not name the card.
\<close>

theorem planning_selected_counterexample:
  "options_get opts_selected_9 ''selected_gpus'' PNone = PStr ''9''
   \<and> ''9'' \<in> set (split_on CHR '','' ''9'') \<and> ''9'' \<notin> set (env_devices_list host4)
   \<and> get_subprocess_env_list host4 1 opts_selected_9 =
       Inl (ValueError ''please input current node ip, cannot only give `cluster_node_ips`.'')
   \<and> \<not> contains_str ''please input current node ip, cannot only give `cluster_node_ips`.'' ''9''"
  by (simp add: host4_devices planning_node_ip_missing node_ip_missing_def options_get_def
        opts_selected_9_def)

text \<open>
  C6, amended: for every explicit device selection (a comma-separated string) with an
  id that is not among the visible devices, planning fails with a
  \<^verbatim>\<open>ConfigurationError\<close>, and \<^verbatim>\<open>spawn\<close> raises with no process started.
  When the option set does not name a node list without the current node's address,
  the error is the \<^verbatim>\<open>ValueError\<close> whose message names the first id of the
  selection that is not visible.
\<close>

theorem planning_rejects_invisible_selection:
  assumes "options_get opts ''selected_gpus'' PNone = PStr selected"
    and "\<exists>card_id \<in> set (split_on CHR '','' selected). card_id \<notin> set (env_devices_list h)"
  shows "(\<exists>e. get_subprocess_env_list h N opts = Inl e \<and> ConfigurationError e)
       \<and> (\<exists>e. spawn h N do_join dmn opts = Some (0, Inl e))
       \<and> (\<not> node_ip_missing opts \<longrightarrow>
            (\<exists>pre card_id post. split_on CHR '','' selected = pre @ card_id # post
               \<and> card_id \<notin> set (env_devices_list h)
               \<and> (\<forall>x \<in> set pre. x \<in> set (env_devices_list h))
               \<and> get_subprocess_env_list h N opts =
                   Inl (ValueError (''The selected gpu card '' @ card_id
                         @ '' cannot found in CUDA_VISIBLE_DEVICES (''
                         @ str_join '','' (env_devices_list h) @ '').''))))"
proof (intro conjI impI)
  show "\<exists>e. get_subprocess_env_list h N opts = Inl e \<and> ConfigurationError e"
    using assms by (rule planning_failure_is_ConfigurationError_selected)
next
  from planning_failure_is_ConfigurationError_selected[OF assms, of "default_nprocs h N"]
  obtain e where "get_subprocess_env_list h (default_nprocs h N) opts = Inl e" by blast
  then show "\<exists>e. spawn h N do_join dmn opts = Some (0, Inl e)"
    by (rule spawn_planning_fails)
next
  assume n: "\<not> node_ip_missing opts"
  from check_selected_first[OF assms(2)] obtain pre card_id post where
    c: "split_on CHR '','' selected = pre @ card_id # post"
      "card_id \<notin> set (env_devices_list h)"
      "\<forall>x \<in> set pre. x \<in> set (env_devices_list h)"
      "check_selected (env_devices_list h) (split_on CHR '','' selected) =
         Some (ValueError (''The selected gpu card '' @ card_id
                   @ '' cannot found in CUDA_VISIBLE_DEVICES (''
                   @ str_join '','' (env_devices_list h) @ '').''))"
    by blast
  from planning_with_selected[OF n assms(1), of h N] c(4)
  have "get_subprocess_env_list h N opts =
          Inl (ValueError (''The selected gpu card '' @ card_id
                @ '' cannot found in CUDA_VISIBLE_DEVICES (''
                @ str_join '','' (env_devices_list h) @ '').''))"
    by simp
  with c(1,2,3)
  show "\<exists>pre card_id post. split_on CHR '','' selected = pre @ card_id # post
               \<and> card_id \<notin> set (env_devices_list h)
               \<and> (\<forall>x \<in> set pre. x \<in> set (env_devices_list h))
               \<and> get_subprocess_env_list h N opts =
                   Inl (ValueError (''The selected gpu card '' @ card_id
                         @ '' cannot found in CUDA_VISIBLE_DEVICES (''
                         @ str_join '','' (env_devices_list h) @ '').''))"
    by blast
qed

theorem planning_rejects_invisible_selection_witness:
  "options_get opts_selected_4_9 ''selected_gpus'' PNone = PStr ''4,9''
   \<and> ''9'' \<in> set (split_on CHR '','' ''4,9'') \<and> ''9'' \<notin> set (env_devices_list host4)
   \<and> \<not> node_ip_missing opts_selected_4_9
   \<and> (\<exists>e. get_subprocess_env_list host4 2 opts_selected_4_9 = Inl e \<and> ConfigurationError e)
   \<and> (\<exists>e. spawn host4 2 True False opts_selected_4_9 = Some (0, Inl e))
   \<and> (\<exists>pre card_id post. split_on CHR '','' ''4,9'' = pre @ card_id # post
               \<and> card_id \<notin> set (env_devices_list host4)
               \<and> (\<forall>x \<in> set pre. x \<in> set (env_devices_list host4))
               \<and> get_subprocess_env_list host4 2 opts_selected_4_9 =
                   Inl (ValueError (''The selected gpu card '' @ card_id
                         @ '' cannot found in CUDA_VISIBLE_DEVICES (''
                         @ str_join '','' (env_devices_list host4) @ '').'')))"
proof -
  have a: "options_get opts_selected_4_9 ''selected_gpus'' PNone = PStr ''4,9''"
    by (simp add: options_get_def opts_selected_4_9_def)
  have b: "''9'' \<in> set (split_on CHR '','' ''4,9'') \<and> ''9'' \<notin> set (env_devices_list host4)"
    by (simp add: host4_devices)
  then have b': "\<exists>card_id \<in> set (split_on CHR '','' ''4,9''). card_id \<notin> set (env_devices_list host4)"
    by blast
  have c: "\<not> node_ip_missing opts_selected_4_9"
    by (simp add: node_ip_missing_def options_get_def opts_selected_4_9_def)
  from a b c planning_rejects_invisible_selection[OF a b', of 2 True False]
  show ?thesis by (intro conjI) blast+
qed

section \<open>spawn: properties\<close>

lemma options_valid_check_first:
  "\<exists>key \<in> set (map fst opts). key \<notin> set supported_options \<Longrightarrow>
     \<exists>pre key post. map fst opts = pre @ key # post \<and> key \<notin> set supported_options
        \<and> (\<forall>k \<in> set pre. k \<in> set supported_options)
        \<and> options_valid_check opts =
            Some (ValueError (''The config option ('' @ key
                   @ '') of `paddle.distributed.spawn` is not supported.''))"
proof (induction opts)
  case Nil
  then show ?case by simp
next
  case (Cons a opts)
  obtain k v where a: "a = (k, v)" by (cases a)
  show ?case
  proof (cases "k \<in> set supported_options")
    case False
    with a have "map fst (a # opts) = [] @ k # map fst opts \<and> k \<notin> set supported_options
        \<and> (\<forall>x \<in> set []. x \<in> set supported_options)
        \<and> options_valid_check (a # opts) =
            Some (ValueError (''The config option ('' @ k
                   @ '') of `paddle.distributed.spawn` is not supported.''))"
      by simp
    then show ?thesis by blast
  next
    case True
    with Cons.prems a have "\<exists>key \<in> set (map fst opts). key \<notin> set supported_options" by auto
    from Cons.IH[OF this] obtain pre key post where
      p: "map fst opts = pre @ key # post" "key \<notin> set supported_options"
         "\<forall>k \<in> set pre. k \<in> set supported_options"
         "options_valid_check opts =
            Some (ValueError (''The config option ('' @ key
                   @ '') of `paddle.distributed.spawn` is not supported.''))"
      by blast
    with True a have "map fst (a # opts) = (k # pre) @ key # post \<and> key \<notin> set supported_options
        \<and> (\<forall>x \<in> set (k # pre). x \<in> set supported_options)
        \<and> options_valid_check (a # opts) =
            Some (ValueError (''The config option ('' @ key
                   @ '') of `paddle.distributed.spawn` is not supported.''))"
      by simp
    then show ?thesis by blast
  qed
qed

text \<open>
  C7, as stated, fails: under an interpreter older than 3.4 the version guard of
  \<^verbatim>\<open>spawn\<close> raises first, and its error does not name the unknown key.
\<close>

theorem spawn_version_guard_counterexample:
  "''gpus'' \<in> set (map fst opts_unknown) \<and> ''gpus'' \<notin> set supported_options
   \<and> spawn host_py2 2 True False opts_unknown =
       Some (0, Inl (RuntimeError (''Use `paddle.distributed.spawn` to start parallel training ''
             @ ''requires python version greater than 3.4, if your python ''
             @ ''is lower than this version, please use ''
             @ ''`paddle.distributed.launch` instead.'')))
   \<and> \<not> contains_str (''Use `paddle.distributed.spawn` to start parallel training ''
             @ ''requires python version greater than 3.4, if your python ''
             @ ''is lower than this version, please use ''
             @ ''`paddle.distributed.launch` instead.'') ''gpus''"
  by (simp add: opts_unknown_def supported_options_def spawn_def py_supported_check_def
        host_py2_def host4_def)

text \<open>
  C7, amended: on an interpreter that passes the version guard, for every option
  dictionary with a key outside the supported set, \<^verbatim>\<open>spawn\<close> raises the
  \<^verbatim>\<open>ValueError\<close> (a \<^verbatim>\<open>ConfigurationError\<close>) whose message names the first
  such key, whatever the devices, the resolver and the other surroundings are, and no
  process has been started.
\<close>

theorem spawn_rejects_unknown_option:
  assumes "py_supported_check (version_info h) = None"
    and "\<exists>key \<in> set (map fst opts). key \<notin> set supported_options"
  shows "\<exists>pre key post. map fst opts = pre @ key # post \<and> key \<notin> set supported_options
           \<and> (\<forall>k \<in> set pre. k \<in> set supported_options)
           \<and> spawn h nprocs do_join dmn opts =
               Some (0, Inl (ValueError (''The config option ('' @ key
                      @ '') of `paddle.distributed.spawn` is not supported.'')))
           \<and> ConfigurationError (ValueError (''The config option ('' @ key
                      @ '') of `paddle.distributed.spawn` is not supported.''))
           \<and> contains_str (''The config option ('' @ key
                      @ '') of `paddle.distributed.spawn` is not supported.'') key"
proof -
  from options_valid_check_first[OF assms(2)] obtain pre key post where
    p: "map fst opts = pre @ key # post" "key \<notin> set supported_options"
       "\<forall>k \<in> set pre. k \<in> set supported_options"
       "options_valid_check opts =
            Some (ValueError (''The config option ('' @ key
                   @ '') of `paddle.distributed.spawn` is not supported.''))"
    by blast
  from assms(1) p(4) have s: "spawn h nprocs do_join dmn opts =
               Some (0, Inl (ValueError (''The config option ('' @ key
                      @ '') of `paddle.distributed.spawn` is not supported.'')))"
    by (simp add: spawn_def)
  have "''The config option ('' @ key @ '') of `paddle.distributed.spawn` is not supported.''
          = ''The config option ('' @ key @ '') of `paddle.distributed.spawn` is not supported.''"
    by simp
  then have c: "contains_str (''The config option ('' @ key
                      @ '') of `paddle.distributed.spawn` is not supported.'') key"
    unfolding contains_str_iff by blast
  from p(1,2,3) s c show ?thesis by auto
qed

theorem spawn_rejects_unknown_option_witness:
  "py_supported_check (version_info host4) = None
   \<and> ''gpus'' \<in> set (map fst opts_unknown) \<and> ''gpus'' \<notin> set supported_options
   \<and> (\<exists>pre key post. map fst opts_unknown = pre @ key # post \<and> key \<notin> set supported_options
           \<and> (\<forall>k \<in> set pre. k \<in> set supported_options)
           \<and> spawn host4 2 True False opts_unknown =
               Some (0, Inl (ValueError (''The config option ('' @ key
                      @ '') of `paddle.distributed.spawn` is not supported.'')))
           \<and> ConfigurationError (ValueError (''The config option ('' @ key
                      @ '') of `paddle.distributed.spawn` is not supported.''))
           \<and> contains_str (''The config option ('' @ key
                      @ '') of `paddle.distributed.spawn` is not supported.'') key)"
proof -
  have a: "py_supported_check (version_info host4) = None"
    by (simp add: py_supported_check_def host4_def)
  have b: "''gpus'' \<in> set (map fst opts_unknown) \<and> ''gpus'' \<notin> set supported_options"
    by (simp add: opts_unknown_def supported_options_def)
  then have b': "\<exists>key \<in> set (map fst opts_unknown). key \<notin> set supported_options"
    by blast
  from a b spawn_rejects_unknown_option[OF a b', of 2 True False]
  show ?thesis by (intro conjI) blast+
qed

lemma join_empty_pool: "join sg empty_pool w = Some (empty_pool, Inr True)"
  by (simp add: join_def empty_pool_def)

lemma spawn_zero_cases:
  "spawn h 0 do_join dmn opts = Some (n, r) \<Longrightarrow> n = 0 \<and> (\<forall>ctx. r = Inr ctx \<longrightarrow> ctx = empty_pool)"
proof -
  assume s: "spawn h 0 do_join dmn opts = Some (n, r)"
  have l: "join_loop h 0 empty_pool = Some (Inr empty_pool)"
    by (subst join_loop.simps) (simp add: join_empty_pool)
  have c: "\<And>ctx. MultiprocessContext (version_info h) [] [] ([] :: 'a list list) = Inr ctx
             \<Longrightarrow> ctx = empty_pool"
    by (auto simp: MultiprocessContext_def empty_pool_def split: option.splits)
  from s show ?thesis
    by (auto simp: spawn_def default_nprocs_def Let_def l
        split: option.splits sum.splits if_splits dest: c)
qed

text \<open>
  The worker count is resolved once: resolving a resolved count changes nothing, so
  \<^verbatim>\<open>spawn\<close> called with a count behaves as \<^verbatim>\<open>spawn\<close> called with the count
  resolved.
\<close>

lemma default_nprocs_idem: "default_nprocs h (default_nprocs h n) = default_nprocs h n"
  by (simp add: default_nprocs_def)

lemma spawn_default_nprocs:
  "spawn h (default_nprocs h n) do_join dmn opts = spawn h n do_join dmn opts"
  unfolding spawn_def default_nprocs_idem by (rule refl)

text \<open>
  C10: the value \<open>- 1\<close> of the worker count, and no other, is resolved: it is replaced
  by the processor count on a CPU host and by the device count elsewhere, and
  \<^verbatim>\<open>spawn\<close> with \<open>- 1\<close> is \<^verbatim>\<open>spawn\<close> with that count; every other value
  is used as it is, with no check that it is positive. With worker count 0, whatever
  the options, \<^verbatim>\<open>spawn\<close> starts no process, and a context it returns is the context
  without workers, on which \<^verbatim>\<open>join\<close> returns true at once, whatever the wait would
  answer. When the call passes the checks of \<^verbatim>\<open>spawn\<close> (the interpreter is
  supported, the keys of the options are supported, planning succeeds and the start
  method is accepted), it does return that context, both when it joins and when it
  does not.
\<close>

theorem spawn_zero_workers:
  "default_nprocs h (- 1)
     = (if get_device h = ''cpu'' then cpu_num h else int (cuda_device_count h))
   \<and> spawn h (- 1) do_join dmn opts
       = spawn h (if get_device h = ''cpu'' then cpu_num h else int (cuda_device_count h))
           do_join dmn opts
   \<and> (\<forall>n. n \<noteq> - 1 \<longrightarrow> default_nprocs h n = n)
   \<and> (\<forall>n r. spawn h 0 do_join dmn opts = Some (n, r)
          \<longrightarrow> n = 0 \<and> (\<forall>ctx. r = Inr ctx \<longrightarrow> ctx = empty_pool))
   \<and> join sg empty_pool w = Some (empty_pool, Inr True)
   \<and> (py_supported_check (version_info h) = None
        \<and> options_valid_check opts = None
        \<and> (\<exists>procs_env_list. get_subprocess_env_list h 0 opts = Inr procs_env_list)
        \<and> get_context h (if options_get opts ''start_method'' PNone = PNone then PStr ''spawn''
                           else options_get opts ''start_method'' PNone) = None
      \<longrightarrow> spawn h 0 do_join dmn opts = Some (0, Inr empty_pool))"
proof (intro conjI)
  show r: "default_nprocs h (- 1)
     = (if get_device h = ''cpu'' then cpu_num h else int (cuda_device_count h))"
    by (simp add: default_nprocs_def)
  show "spawn h (- 1) do_join dmn opts
       = spawn h (if get_device h = ''cpu'' then cpu_num h else int (cuda_device_count h))
           do_join dmn opts"
    using spawn_default_nprocs[of h "- 1" do_join dmn opts] unfolding r by simp
next
  show "\<forall>n. n \<noteq> - 1 \<longrightarrow> default_nprocs h n = n"
    by (simp add: default_nprocs_def)
next
  show "\<forall>n r. spawn h 0 do_join dmn opts = Some (n, r)
          \<longrightarrow> n = 0 \<and> (\<forall>ctx. r = Inr ctx \<longrightarrow> ctx = empty_pool)"
    using spawn_zero_cases by blast
next
  show "join sg empty_pool w = Some (empty_pool, Inr True)"
    by (rule join_empty_pool)
next
  show "py_supported_check (version_info h) = None
        \<and> options_valid_check opts = None
        \<and> (\<exists>procs_env_list. get_subprocess_env_list h 0 opts = Inr procs_env_list)
        \<and> get_context h (if options_get opts ''start_method'' PNone = PNone then PStr ''spawn''
                           else options_get opts ''start_method'' PNone) = None
      \<longrightarrow> spawn h 0 do_join dmn opts = Some (0, Inr empty_pool)"
  proof
    assume a: "py_supported_check (version_info h) = None
        \<and> options_valid_check opts = None
        \<and> (\<exists>procs_env_list. get_subprocess_env_list h 0 opts = Inr procs_env_list)
        \<and> get_context h (if options_get opts ''start_method'' PNone = PNone then PStr ''spawn''
                           else options_get opts ''start_method'' PNone) = None"
    then obtain procs_env_list where p: "get_subprocess_env_list h 0 opts = Inr procs_env_list"
      by blast
    have c: "MultiprocessContext (version_info h) [] [] ([] :: 'a list list) = Inr empty_pool"
      using a by (simp add: MultiprocessContext_def empty_pool_def)
    have l: "join_loop h 0 empty_pool = Some (Inr empty_pool)"
      by (subst join_loop.simps) (simp add: join_empty_pool)
    from a p c l show "spawn h 0 do_join dmn opts = Some (0, Inr empty_pool)"
      by (simp add: spawn_def default_nprocs_def Let_def)
  qed
qed

theorem spawn_zero_workers_witness:
  "py_supported_check (version_info host4) = None
   \<and> options_valid_check [] = None
   \<and> get_subprocess_env_list host4 0 [] = Inr [[(''FLAGS_selected_gpus'', [])]]
   \<and> get_context host4 (if options_get [] ''start_method'' PNone = PNone then PStr ''spawn''
                        else options_get [] ''start_method'' PNone) = None
   \<and> default_nprocs host4 0 = 0
   \<and> spawn host4 0 True False [] = Some (0, Inr empty_pool)
   \<and> join signal_table empty_pool None = Some (empty_pool, Inr True)
   \<and> default_nprocs host4 (- 1) = 8
   \<and> spawn host4 (- 1) True False [] = spawn host4 8 True False []"
proof -
  have a: "py_supported_check (version_info host4) = None"
    by (simp add: py_supported_check_def host4_def)
  have b: "options_valid_check [] = None" by simp
  have n: "\<not> node_ip_missing []" by (simp add: node_ip_missing_def options_get_def)
  have s: "options_get [] ''selected_gpus'' PNone = PNone" by (simp add: options_get_def)
  have c: "get_subprocess_env_list host4 0 [] = Inr [[(''FLAGS_selected_gpus'', [])]]"
    by (simp add: planning_without_selected[OF n s] host4_devices)
       (simp add: host4_def one_env_per_device_def planned_args_def)
  have d: "get_context host4 (if options_get [] ''start_method'' PNone = PNone then PStr ''spawn''
                        else options_get [] ''start_method'' PNone) = None"
    by (simp add: options_get_def host4_def)
  have z: "(0::int) \<noteq> - 1" by simp
  have g: "(if get_device host4 = ''cpu'' then cpu_num host4 else int (cuda_device_count host4)) = 8"
    by (simp add: host4_def)
  from spawn_zero_workers[of host4 True False "[]" signal_table None] a b c d z
  have "default_nprocs host4 0 = 0
   \<and> spawn host4 0 True False [] = Some (0, Inr empty_pool)
   \<and> join signal_table empty_pool None = Some (empty_pool, Inr True)"
    by blast
  moreover from spawn_zero_workers[of host4 True False "[]" signal_table None]
  have "default_nprocs host4 (- 1) = 8
   \<and> spawn host4 (- 1) True False [] = spawn host4 8 True False []"
    unfolding g by blast
  ultimately show ?thesis using a b c d by (intro conjI) blast+
qed

end
